theory Spec2Isabelle
  imports Main "HOL-Library.Multiset" "HOL-Library.Sublist"
begin

section \<open>JavaScript values\<close>

text \<open>
  A JavaScript string is a sequence of UTF-16 code units; \<open>length\<close> counts code units as
  the \<^verbatim>\<open>.length\<close> of the source does. ASCII literals of the source are written \<open>str ''...''\<close>.
\<close>

type_synonym jsstring = "nat list"

definition str :: "string \<Rightarrow> jsstring" where
  "str s = map of_char s"

text \<open>
  The values that reach the store: what \<^verbatim>\<open>JSON.parse\<close> produces, and \<^verbatim>\<open>undefined\<close>.
  Numbers are the integers (timestamps, counts); fractions, NaN and infinities are not
  represented. An object is its list of own properties in insertion order; property names
  are Latin-1 strings.
\<close>

datatype jsval =
    JUndefined
  | JNull
  | JBool bool
  | JNum int
  | JStr jsstring
  | JArr "jsval list"
  | JObj "(string \<times> jsval) list"

type_synonym obj = "(string \<times> jsval) list"

text \<open>\<^verbatim>\<open>o.k\<close>: the value of property \<open>k\<close>, \<^verbatim>\<open>undefined\<close> when \<open>o\<close> has no such property.\<close>

definition getProp :: "obj \<Rightarrow> string \<Rightarrow> jsval" where
  "getProp ob k = (case map_of ob k of None \<Rightarrow> JUndefined | Some v \<Rightarrow> v)"

text \<open>Truthiness: \<^verbatim>\<open>undefined\<close>, \<^verbatim>\<open>null\<close>, \<^verbatim>\<open>false\<close>, \<^verbatim>\<open>0\<close> and \<^verbatim>\<open>''\<close> are falsy.\<close>

fun truthy :: "jsval \<Rightarrow> bool" where
  "truthy JUndefined = False"
| "truthy JNull = False"
| "truthy (JBool b) = b"
| "truthy (JNum n) = (n \<noteq> 0)"
| "truthy (JStr s) = (s \<noteq> [])"
| "truthy (JArr vs) = True"
| "truthy (JObj kvs) = True"

text \<open>\<^verbatim>\<open>typeof v === 'number'\<close>\<close>

fun isNumber :: "jsval \<Rightarrow> bool" where
  "isNumber (JNum n) = True"
| "isNumber v = False"

text \<open>\<^verbatim>\<open>a || b\<close>\<close>

definition orElse :: "jsval \<Rightarrow> jsval \<Rightarrow> jsval" where
  "orElse a b = (if truthy a then a else b)"

text \<open>
  \<^verbatim>\<open>a === b\<close>. Primitives compare by value. Arrays and objects compare by reference in
  JavaScript; two values read from the store or parsed from a file are never the same
  reference, so here they are never equal.
\<close>

fun strictEq :: "jsval \<Rightarrow> jsval \<Rightarrow> bool" where
  "strictEq (JArr a) b = False"
| "strictEq (JObj a) b = False"
| "strictEq a b = (a = b)"

text \<open>
  \<^verbatim>\<open>xs.includes(v)\<close> on an array (SameValueZero, which is \<open>===\<close> on the values
  represented here).
\<close>

definition arrayIncludes :: "jsval list \<Rightarrow> jsval \<Rightarrow> bool" where
  "arrayIncludes xs v = list_ex (\<lambda>x. strictEq x v) xs"

text \<open>
  Decimal digits of a non-negative integer, as \<^verbatim>\<open>String(n)\<close> prints it (for the integers
  below \<open>10\<^sup>2\<^sup>1\<close>, which JavaScript prints without an exponent).
\<close>

fun decimal :: "nat \<Rightarrow> jsstring" where
  "decimal n = (if n < 10 then [48 + n] else decimal (n div 10) @ [48 + n mod 10])"

declare decimal.simps [simp del]

subsection \<open>Strings and coercions\<close>

text \<open>White space and line terminators, as \<^verbatim>\<open>String.prototype.trim\<close> strips them.\<close>

definition isSpace :: "nat \<Rightarrow> bool" where
  "isSpace c = (c = 9 \<or> c = 10 \<or> c = 11 \<or> c = 12 \<or> c = 13 \<or> c = 32 \<or> c = 160 \<or> c = 5760
     \<or> (8192 \<le> c \<and> c \<le> 8202) \<or> c = 8232 \<or> c = 8233 \<or> c = 8239 \<or> c = 8287
     \<or> c = 12288 \<or> c = 65279)"

definition trim :: "jsstring \<Rightarrow> jsstring" where
  "trim s = rev (dropWhile isSpace (rev (dropWhile isSpace s)))"

text \<open>
  \<^verbatim>\<open>toLowerCase\<close> on the Basic Latin and Latin-1 letters; the case mappings of the other
  Unicode blocks are not represented and those code units stay as they are.
\<close>

definition lowerUnit :: "nat \<Rightarrow> nat" where
  "lowerUnit c =
     (if (65 \<le> c \<and> c \<le> 90) \<or> (192 \<le> c \<and> c \<le> 222 \<and> c \<noteq> 215) then c + 32 else c)"

definition toLowerCase :: "jsstring \<Rightarrow> jsstring" where
  "toLowerCase s = map lowerUnit s"

text \<open>\<^verbatim>\<open>hay.includes(needle)\<close> on strings: \<open>needle\<close> occurs in \<open>hay\<close> as a contiguous run.\<close>

fun strIncludes :: "jsstring \<Rightarrow> jsstring \<Rightarrow> bool" where
  "strIncludes [] needle = (needle = [])"
| "strIncludes (c # cs) needle = (prefix needle (c # cs) \<or> strIncludes cs needle)"

text \<open>\<^verbatim>\<open>s <= t\<close> on two strings: by code units, a prefix first.\<close>

fun strLe :: "jsstring \<Rightarrow> jsstring \<Rightarrow> bool" where
  "strLe [] t = True"
| "strLe (c # cs) [] = False"
| "strLe (c # cs) (d # ds) = (c < d \<or> (c = d \<and> strLe cs ds))"

text \<open>\<^verbatim>\<open>String(v)\<close>: an array joins the strings of its elements with commas, \<^verbatim>\<open>null\<close> and
  \<^verbatim>\<open>undefined\<close> elements printing as nothing.\<close>

fun joinComma :: "jsstring list \<Rightarrow> jsstring" where
  "joinComma [] = []"
| "joinComma [s] = s"
| "joinComma (s # t # ts) = s @ [44] @ joinComma (t # ts)"

fun toStr :: "jsval \<Rightarrow> jsstring" where
  "toStr JUndefined = str ''undefined''"
| "toStr JNull = str ''null''"
| "toStr (JBool b) = (if b then str ''true'' else str ''false'')"
| "toStr (JNum n) = (if n < 0 then [45] @ decimal (nat (- n)) else decimal (nat n))"
| "toStr (JStr s) = s"
| "toStr (JArr vs) =
     joinComma (map (\<lambda>v. if v = JUndefined \<or> v = JNull then [] else toStr v) vs)"
| "toStr (JObj kvs) = str ''[object Object]''"

text \<open>
  \<^verbatim>\<open>Number(v)\<close>, \<open>None\<close> standing for NaN. A string is read when, trimmed, it is empty or a
  run of decimal digits; the other numeric spellings (signs, fractions, exponents, radix
  prefixes) are not represented and read as NaN.
\<close>

definition isDigit :: "nat \<Rightarrow> bool" where
  "isDigit c = (48 \<le> c \<and> c \<le> 57)"

definition parseNumber :: "jsstring \<Rightarrow> int option" where
  "parseNumber s =
     (let t = trim s in
      if list_all isDigit t then Some (int (foldl (\<lambda>acc c. 10 * acc + (c - 48)) 0 t))
      else None)"

fun toNumber :: "jsval \<Rightarrow> int option" where
  "toNumber JUndefined = None"
| "toNumber JNull = Some 0"
| "toNumber (JBool b) = Some (if b then 1 else 0)"
| "toNumber (JNum n) = Some n"
| "toNumber (JStr s) = parseNumber s"
| "toNumber (JArr vs) = parseNumber (toStr (JArr vs))"
| "toNumber (JObj kvs) = None"

text \<open>
  \<^verbatim>\<open>a <= b\<close>: two strings (after arrays and objects are turned into strings) compare as
  strings, anything else as numbers, and a comparison with NaN is false.
\<close>

definition toPrimitive :: "jsval \<Rightarrow> jsval" where
  "toPrimitive v = (case v of JArr vs \<Rightarrow> JStr (toStr v) | JObj kvs \<Rightarrow> JStr (toStr v) | _ \<Rightarrow> v)"

definition jsLe :: "jsval \<Rightarrow> jsval \<Rightarrow> bool" where
  "jsLe a b =
     (case (toPrimitive a, toPrimitive b) of
        (JStr s, JStr t) \<Rightarrow> strLe s t
      | (x, y) \<Rightarrow> (case (toNumber x, toNumber y) of
                    (Some m, Some n) \<Rightarrow> m \<le> n
                  | _ \<Rightarrow> False))"

text \<open>\<^verbatim>\<open>a < b\<close>\<close>

definition jsLt :: "jsval \<Rightarrow> jsval \<Rightarrow> bool" where
  "jsLt a b =
     (case (toPrimitive a, toPrimitive b) of
        (JStr s, JStr t) \<Rightarrow> strLe s t \<and> s \<noteq> t
      | (x, y) \<Rightarrow> (case (toNumber x, toNumber y) of
                    (Some m, Some n) \<Rightarrow> m < n
                  | _ \<Rightarrow> False))"

subsection \<open>Length of the JSON text\<close>

text \<open>
  \<^verbatim>\<open>JSON.stringify(v).length\<close>. A quoted string escapes the quote, the backslash and the
  control characters (two code units for the short escapes, six for \<^verbatim>\<open>\u00XX\<close>), and a
  surrogate that is not part of a pair (six code units).
\<close>

definition isHigh :: "nat \<Rightarrow> bool" where
  "isHigh c = (55296 \<le> c \<and> c \<le> 56319)"

definition isLow :: "nat \<Rightarrow> bool" where
  "isLow c = (56320 \<le> c \<and> c \<le> 57343)"

definition unitLen :: "nat \<Rightarrow> nat" where
  "unitLen c =
     (if c = 34 \<or> c = 92 then 2
      else if c < 32 then (if c = 8 \<or> c = 9 \<or> c = 10 \<or> c = 12 \<or> c = 13 then 2 else 6)
      else if isHigh c \<or> isLow c then 6
      else 1)"

fun quoteBody :: "jsstring \<Rightarrow> nat" where
  "quoteBody [] = 0"
| "quoteBody [c] = unitLen c"
| "quoteBody (c # d # cs) =
     (if isHigh c \<and> isLow d then 2 + quoteBody cs else unitLen c + quoteBody (d # cs))"

definition quoteLen :: "jsstring \<Rightarrow> nat" where
  "quoteLen s = 2 + quoteBody s"

definition numLen :: "int \<Rightarrow> nat" where
  "numLen n = (if n < 0 then 1 + length (decimal (nat (- n))) else length (decimal (nat n)))"

text \<open>
  Elements of an array are joined by commas, \<^verbatim>\<open>undefined\<close> printing as \<^verbatim>\<open>null\<close> there; an
  object prints \<^verbatim>\<open>"key":value\<close> for each property whose value is not \<^verbatim>\<open>undefined\<close>.
\<close>

fun jsonLength :: "jsval \<Rightarrow> nat" where
  "jsonLength JUndefined = 4"
| "jsonLength JNull = 4"
| "jsonLength (JBool b) = (if b then 4 else 5)"
| "jsonLength (JNum n) = numLen n"
| "jsonLength (JStr s) = quoteLen s"
| "jsonLength (JArr vs) = 2 + sum_list (map jsonLength vs) + (length vs - 1)"
| "jsonLength (JObj kvs) =
     2 + sum_list (map (\<lambda>p. if snd p = JUndefined then 0
                             else quoteLen (str (fst p)) + 1 + jsonLength (snd p)) kvs)
       + (length (filter (\<lambda>p. snd p \<noteq> JUndefined) kvs) - 1)"


section \<open>The conversation store\<close>

definition MAX_STORAGE_SIZE :: nat where
  "MAX_STORAGE_SIZE = 5 * 1024 * 1024"

datatype error = NotFound jsval | InvalidFormat | TypeError | BackendFailure

text \<open>
  The backend (\<^verbatim>\<open>chrome.storage.local\<close>): the list held under the conversations key (an
  absent key reads as the empty list), whether a read and a write succeed, and how many
  writes were made.
\<close>

record backend =
  stored :: "obj list"
  readOk :: bool
  writeOk :: bool
  writes :: nat

text \<open>\<^verbatim>\<open>chrome.storage.local.set({[STORAGE_KEY]: v})\<close>\<close>

definition storageSet :: "backend \<Rightarrow> obj list \<Rightarrow> error + backend" where
  "storageSet st v =
     (if writeOk st then Inr (st\<lparr>stored := v, writes := Suc (writes st)\<rparr>)
      else Inl BackendFailure)"

definition getAllConversations :: "backend \<Rightarrow> obj list" where
  "getAllConversations st = (if readOk st then stored st else [])"

definition getConversation :: "backend \<Rightarrow> jsval \<Rightarrow> obj option" where
  "getConversation st ident =
     find (\<lambda>conv. strictEq (getProp conv ''id'') ident) (getAllConversations st)"

text \<open>
  What a call reads from its surroundings: the clock at the two \<^verbatim>\<open>Date.now()\<close> calls, the
  suffix \<^verbatim>\<open>Math.random().toString(36).substr(2, 9)\<close> and \<^verbatim>\<open>window.location.href\<close>.
\<close>

record env =
  nowId :: nat
  rnd :: jsstring
  nowTs :: nat
  href :: jsstring

definition generateId :: "env \<Rightarrow> jsstring" where
  "generateId e = str ''conv_'' @ decimal (nowId e) @ str ''_'' @ rnd e"

text \<open>The object literal of \<^verbatim>\<open>saveConversation\<close>.\<close>

definition newConversation :: "env \<Rightarrow> obj \<Rightarrow> obj" where
  "newConversation e conversationData =
     [(''id'', JStr (generateId e)),
      (''title'', orElse (getProp conversationData ''title'') (JStr (str ''Untitled Conversation''))),
      (''content'', orElse (getProp conversationData ''content'') (JStr [])),
      (''provider'', orElse (getProp conversationData ''provider'') (JStr (str ''unknown''))),
      (''timestamp'', JNum (int (nowTs e))),
      (''url'', orElse (getProp conversationData ''url'') (JStr (href e))),
      (''conversationId'', orElse (getProp conversationData ''conversationId'') (JStr [])),
      (''tags'', orElse (getProp conversationData ''tags'') (JArr [])),
      (''isFavorite'', orElse (getProp conversationData ''isFavorite'') (JBool False)),
      (''notes'', orElse (getProp conversationData ''notes'') (JStr [])),
      (''messageCount'', orElse (getProp conversationData ''messageCount'') (JNum 0))]"

subsection \<open>Sorting\<close>

text \<open>
  \<^verbatim>\<open>Array.prototype.sort\<close> with a comparator is stable; the model is the stable insertion
  sort. The comparator is \<^verbatim>\<open>(a, b) => b.timestamp - a.timestamp\<close>; where the difference is
  NaN the sort reads it as 0.
\<close>

fun insertBy :: "('a \<Rightarrow> 'a \<Rightarrow> int) \<Rightarrow> 'a \<Rightarrow> 'a list \<Rightarrow> 'a list" where
  "insertBy cmp x [] = [x]"
| "insertBy cmp x (y # ys) = (if cmp x y \<le> 0 then x # y # ys else y # insertBy cmp x ys)"

definition sortBy :: "('a \<Rightarrow> 'a \<Rightarrow> int) \<Rightarrow> 'a list \<Rightarrow> 'a list" where
  "sortBy cmp xs = foldr (insertBy cmp) xs []"

definition byTimestampDesc :: "obj \<Rightarrow> obj \<Rightarrow> int" where
  "byTimestampDesc a b =
     (case (toNumber (getProp b ''timestamp''), toNumber (getProp a ''timestamp'')) of
        (Some x, Some y) \<Rightarrow> x - y
      | _ \<Rightarrow> 0)"

subsection \<open>Capacity check\<close>

text \<open>
  \<^verbatim>\<open>(size / MAX_STORAGE_SIZE) * 100 > 90\<close> holds in double arithmetic exactly when
  \<open>size * 100 > 90 * MAX_STORAGE_SIZE\<close>, and \<^verbatim>\<open>Math.ceil(n * 0.1)\<close> is \<open>(n + 9) div 10\<close> for
  every list length. The function sorts its argument in place and returns a list: the
  result is the pair of the argument array after the call and the returned list. The ids
  to delete are looked up with \<^verbatim>\<open>includes\<close>; every id this program writes is a string.
\<close>

definition checkAndCleanupStorage :: "obj list \<Rightarrow> obj list \<times> obj list" where
  "checkAndCleanupStorage conversations =
     (let size = jsonLength (JArr (map JObj conversations)) in
      if size * 100 > 90 * MAX_STORAGE_SIZE then
        (let sorted = sortBy byTimestampDesc conversations;
             nonFavorites = filter (\<lambda>c. \<not> truthy (getProp c ''isFavorite'')) sorted in
         if length nonFavorites > 0 then
           (let toRemove = (length nonFavorites + 9) div 10;
                toDelete = map (\<lambda>c. getProp c ''id'')
                               (drop (length nonFavorites - toRemove) nonFavorites)
            in (sorted, filter (\<lambda>c. \<not> arrayIncludes toDelete (getProp c ''id'')) sorted))
         else (sorted, sorted))
      else (conversations, conversations))"

text \<open>
  \<^verbatim>\<open>saveConversation\<close> awaits \<^verbatim>\<open>checkAndCleanupStorage(conversations)\<close> without using the
  value it returns, and then writes \<^verbatim>\<open>conversations\<close>, the array it pushed to.
\<close>

definition saveConversation :: "backend \<Rightarrow> env \<Rightarrow> obj \<Rightarrow> (error + obj) \<times> backend" where
  "saveConversation st e conversationData =
     (let conversations = getAllConversations st;
          conversation = newConversation e conversationData;
          pushed = conversations @ [conversation];
          conversations' = fst (checkAndCleanupStorage pushed)
      in case storageSet st conversations' of
           Inl err \<Rightarrow> (Inl err, st)
         | Inr st' \<Rightarrow> (Inr conversation, st'))"

subsection \<open>Update\<close>

fun findIndex :: "('a \<Rightarrow> bool) \<Rightarrow> 'a list \<Rightarrow> nat option" where
  "findIndex P [] = None"
| "findIndex P (x # xs) =
     (if P x then Some 0 else (case findIndex P xs of None \<Rightarrow> None | Some i \<Rightarrow> Some (Suc i)))"

text \<open>
  Defining a property: an existing name keeps its place and takes the new value, a new name
  goes to the end. The spread \<^verbatim>\<open>{...a, ...b}\<close> defines the properties of \<open>b\<close> over a copy of \<open>a\<close>.
\<close>

fun setProp :: "string \<Rightarrow> jsval \<Rightarrow> obj \<Rightarrow> obj" where
  "setProp k v [] = [(k, v)]"
| "setProp k v (p # ps) = (if fst p = k then (k, v) # ps else p # setProp k v ps)"

definition spread :: "obj \<Rightarrow> obj \<Rightarrow> obj" where
  "spread a b = foldl (\<lambda>acc p. setProp (fst p) (snd p) acc) a b"

definition updateConversation ::
    "backend \<Rightarrow> nat \<Rightarrow> jsval \<Rightarrow> obj \<Rightarrow> (error + obj) \<times> backend" where
  "updateConversation st now ident updates =
     (let conversations = getAllConversations st in
      case findIndex (\<lambda>conv. strictEq (getProp conv ''id'') ident) conversations of
        None \<Rightarrow> (Inl (NotFound ident), st)
      | Some index \<Rightarrow>
          (let merged = setProp ''modifiedAt'' (JNum (int now))
                          (setProp ''id'' ident (spread (conversations ! index) updates));
               conversations' = conversations[index := merged]
           in case storageSet st conversations' of
                Inl err \<Rightarrow> (Inl err, st)
              | Inr st' \<Rightarrow> (Inr merged, st')))"

subsection \<open>Search\<close>

text \<open>
  The callbacks of the query filter can throw (a \<^verbatim>\<open>title\<close> that is not a string has no
  \<^verbatim>\<open>toLowerCase\<close>): a test returns an error or a truth value, \<open>||\<close> and \<^verbatim>\<open>some\<close> stop at the
  first true operand, and a filter stops at the first error.
\<close>

definition orE :: "error + bool \<Rightarrow> error + bool \<Rightarrow> error + bool" where
  "orE a b = (case a of Inl e \<Rightarrow> Inl e | Inr t \<Rightarrow> if t then Inr True else b)"

fun someE :: "('a \<Rightarrow> error + bool) \<Rightarrow> 'a list \<Rightarrow> error + bool" where
  "someE p [] = Inr False"
| "someE p (x # xs) = orE (p x) (someE p xs)"

fun filterE :: "('a \<Rightarrow> error + bool) \<Rightarrow> 'a list \<Rightarrow> error + 'a list" where
  "filterE p [] = Inr []"
| "filterE p (x # xs) =
     (case p x of
        Inl e \<Rightarrow> Inl e
      | Inr t \<Rightarrow> (case filterE p xs of
                   Inl e \<Rightarrow> Inl e
                 | Inr r \<Rightarrow> Inr (if t then x # r else r)))"

text \<open>\<^verbatim>\<open>v.toLowerCase().includes(lowerQuery)\<close>\<close>

fun lowerIncludes :: "jsval \<Rightarrow> jsstring \<Rightarrow> error + bool" where
  "lowerIncludes (JStr s) lowerQuery = Inr (strIncludes (toLowerCase s) lowerQuery)"
| "lowerIncludes v lowerQuery = Inl TypeError"

definition matchesQuery :: "jsstring \<Rightarrow> obj \<Rightarrow> error + bool" where
  "matchesQuery lowerQuery conv =
     orE (lowerIncludes (getProp conv ''title'') lowerQuery)
       (orE (lowerIncludes (getProp conv ''content'') lowerQuery)
         (orE (lowerIncludes (getProp conv ''notes'') lowerQuery)
           (case getProp conv ''tags'' of
              JArr ts \<Rightarrow> someE (\<lambda>tag. lowerIncludes tag lowerQuery) ts
            | _ \<Rightarrow> Inl TypeError)))"

text \<open>\<^verbatim>\<open>if (query && query.trim()) results = results.filter(...)\<close>\<close>

definition queryFilter :: "jsval \<Rightarrow> obj list \<Rightarrow> error + obj list" where
  "queryFilter query results =
     (if \<not> truthy query then Inr results
      else case query of
             JStr q \<Rightarrow> if trim q \<noteq> [] then filterE (matchesQuery (toLowerCase q)) results
                       else Inr results
           | _ \<Rightarrow> Inl TypeError)"

text \<open>\<^verbatim>\<open>conv.tags.includes(tag)\<close>, on an array or on a string.\<close>

definition tagsInclude :: "jsval \<Rightarrow> jsval \<Rightarrow> error + bool" where
  "tagsInclude tags tag =
     (case tags of
        JArr ts \<Rightarrow> Inr (arrayIncludes ts tag)
      | JStr s \<Rightarrow> Inr (strIncludes s (toStr tag))
      | _ \<Rightarrow> Inl TypeError)"

text \<open>
  \<^verbatim>\<open>if (filters.tags && filters.tags.length > 0) results = results.filter(...)\<close>. Only an
  array has \<^verbatim>\<open>some\<close>: with a non-empty string, or an object with a positive \<^verbatim>\<open>length\<close>, the
  callback throws at the first conversation it is called on.
\<close>

definition tagFilter :: "jsval \<Rightarrow> obj list \<Rightarrow> error + obj list" where
  "tagFilter wanted results =
     (case wanted of
        JArr ts \<Rightarrow>
          if length ts > 0
          then filterE (\<lambda>conv. someE (\<lambda>tag. tagsInclude (getProp conv ''tags'') tag) ts) results
          else Inr results
      | JStr s \<Rightarrow>
          if length s > 0 then filterE (\<lambda>conv. Inl TypeError) results else Inr results
      | JObj kvs \<Rightarrow>
          if jsLt (JNum 0) (getProp kvs ''length'')
          then filterE (\<lambda>conv. Inl TypeError) results else Inr results
      | _ \<Rightarrow> Inr results)"

definition searchConversations :: "backend \<Rightarrow> jsval \<Rightarrow> obj \<Rightarrow> error + obj list" where
  "searchConversations st query filters =
     (let conversations = getAllConversations st in
      case queryFilter query conversations of
        Inl e \<Rightarrow> Inl e
      | Inr r1 \<Rightarrow>
          (let r2 = (if truthy (getProp filters ''provider'')
                     then filter (\<lambda>conv. strictEq (getProp conv ''provider'')
                                                  (getProp filters ''provider'')) r1
                     else r1);
               r3 = (if getProp filters ''isFavorite'' \<noteq> JUndefined
                     then filter (\<lambda>conv. strictEq (getProp conv ''isFavorite'')
                                                  (getProp filters ''isFavorite'')) r2
                     else r2);
               r4 = (if truthy (getProp filters ''startDate'')
                     then filter (\<lambda>conv. jsLe (getProp filters ''startDate'')
                                              (getProp conv ''timestamp'')) r3
                     else r3);
               r5 = (if truthy (getProp filters ''endDate'')
                     then filter (\<lambda>conv. jsLe (getProp conv ''timestamp'')
                                              (getProp filters ''endDate'')) r4
                     else r4)
           in case tagFilter (getProp filters ''tags'') r5 of
                Inl e \<Rightarrow> Inl e
              | Inr r6 \<Rightarrow> Inr (sortBy byTimestampDesc r6)))"

subsection \<open>Import\<close>

text \<open>
  \<^verbatim>\<open>findDuplicate\<close>: \<open>None\<close> stands for both \<^verbatim>\<open>null\<close> and the \<^verbatim>\<open>undefined\<close> of a \<^verbatim>\<open>find\<close> without a
  match; the caller only tests the result for truthiness.
\<close>

definition findDuplicate :: "backend \<Rightarrow> jsval \<Rightarrow> obj option" where
  "findDuplicate st conversationId =
     (if \<not> truthy conversationId then None
      else find (\<lambda>conv. strictEq (getProp conv ''conversationId'') conversationId)
             (getAllConversations st))"

text \<open>
  The properties of a value that is read with \<^verbatim>\<open>v.name\<close>: those of an object; a number, a
  boolean, a string or an array has none of the names read here.
\<close>

fun objOf :: "jsval \<Rightarrow> obj" where
  "objOf (JObj kvs) = kvs"
| "objOf v = []"

fun isArray :: "jsval \<Rightarrow> bool" where
  "isArray (JArr vs) = True"
| "isArray v = False"

fun elements :: "jsval \<Rightarrow> jsval list" where
  "elements (JArr vs) = vs"
| "elements v = []"

record importResults =
  imported :: nat
  skipped :: nat
  updated :: nat
  errors :: "(jsval \<times> error) list"

text \<open>
  One turn of the loop of \<^verbatim>\<open>importData\<close>. Reading \<^verbatim>\<open>convData.conversationId\<close> of \<^verbatim>\<open>null\<close>
  throws inside the \<^verbatim>\<open>try\<close>, and the handler, which reads \<^verbatim>\<open>convData.title\<close>, throws again:
  that error leaves the loop. Every other error is recorded with the title and the loop
  goes on. The clock and the random suffix of the turn come from \<open>e\<close>.
\<close>

definition importOne ::
    "env \<Rightarrow> jsstring \<Rightarrow> jsval \<Rightarrow> importResults \<Rightarrow> backend \<Rightarrow> (error + importResults) \<times> backend" where
  "importOne e mergeStrategy convData results st =
     (if convData = JNull \<or> convData = JUndefined then (Inl TypeError, st)
      else
        (let d = objOf convData;
             save = (case saveConversation st e d of
                       (Inl err, st') \<Rightarrow>
                         (Inr (results\<lparr>errors := errors results @ [(getProp d ''title'', err)]\<rparr>), st')
                     | (Inr conv, st') \<Rightarrow>
                         (Inr (results\<lparr>imported := Suc (imported results)\<rparr>), st'))
         in case findDuplicate st (getProp d ''conversationId'') of
              None \<Rightarrow> save
            | Some duplicate \<Rightarrow>
                if mergeStrategy = str ''skip''
                then (Inr (results\<lparr>skipped := Suc (skipped results)\<rparr>), st)
                else if mergeStrategy = str ''update''
                then (case updateConversation st (nowTs e) (getProp duplicate ''id'') d of
                        (Inl err, st') \<Rightarrow>
                          (Inr (results\<lparr>errors := errors results @ [(getProp d ''title'', err)]\<rparr>), st')
                      | (Inr conv, st') \<Rightarrow>
                          (Inr (results\<lparr>updated := Suc (updated results)\<rparr>), st'))
                else save))"

fun importLoop ::
    "(nat \<Rightarrow> env) \<Rightarrow> jsstring \<Rightarrow> nat \<Rightarrow> jsval list \<Rightarrow> importResults \<Rightarrow> backend
       \<Rightarrow> (error + importResults) \<times> backend" where
  "importLoop envAt mergeStrategy i [] results st = (Inr results, st)"
| "importLoop envAt mergeStrategy i (convData # rest) results st =
     (case importOne (envAt i) mergeStrategy convData results st of
        (Inl err, st') \<Rightarrow> (Inl err, st')
      | (Inr results', st') \<Rightarrow> importLoop envAt mergeStrategy (Suc i) rest results' st')"

text \<open>
  \<^verbatim>\<open>importData(data, mergeStrategy)\<close>; \<open>envAt i\<close> is what the turn for record \<open>i\<close> reads from
  its surroundings.
\<close>

definition importData ::
    "backend \<Rightarrow> (nat \<Rightarrow> env) \<Rightarrow> jsval \<Rightarrow> jsstring \<Rightarrow> (error + importResults) \<times> backend" where
  "importData st envAt data mergeStrategy =
     (if \<not> truthy data \<or> \<not> truthy (getProp (objOf data) ''conversations'')
         \<or> \<not> isArray (getProp (objOf data) ''conversations'')
      then (Inl InvalidFormat, st)
      else importLoop envAt mergeStrategy 0 (elements (getProp (objOf data) ''conversations''))
             \<lparr>imported = 0, skipped = 0, updated = 0, errors = []\<rparr> st)"

text \<open>
  \<^verbatim>\<open>handleImport\<close> of the history page, from the parsed file on: \<open>data\<close> is what \<^verbatim>\<open>JSON.parse\<close>
  returned, \<open>proceed\<close> and \<open>updateDuplicates\<close> are the answers to its two \<^verbatim>\<open>confirm\<close> dialogs.
  Reading \<^verbatim>\<open>data.version\<close> of \<^verbatim>\<open>null\<close> throws a TypeError; every error ends in the handler's
  \<^verbatim>\<open>catch\<close>, which reports it.
\<close>

datatype importOutcome = ImportFailed error | ImportCancelled | ImportDone importResults

definition handleImport ::
    "backend \<Rightarrow> (nat \<Rightarrow> env) \<Rightarrow> jsval \<Rightarrow> bool \<Rightarrow> bool \<Rightarrow> importOutcome \<times> backend" where
  "handleImport st envAt data proceed updateDuplicates =
     (if data = JNull \<or> data = JUndefined then (ImportFailed TypeError, st)
      else if \<not> truthy (getProp (objOf data) ''version'') then (ImportFailed InvalidFormat, st)
      else if \<not> truthy (getProp (objOf data) ''conversations'')
              \<or> \<not> isArray (getProp (objOf data) ''conversations'')
           then (ImportFailed InvalidFormat, st)
      else if \<not> proceed then (ImportCancelled, st)
      else case importData st envAt data (if updateDuplicates then str ''update'' else str ''skip'') of
             (Inl err, st') \<Rightarrow> (ImportFailed err, st')
           | (Inr results, st') \<Rightarrow> (ImportDone results, st'))"

text \<open>
  The spec's relation "equal except for the fields \<open>ks\<close>": every property name of either
  object that is not in \<open>ks\<close> has the same value in both.
\<close>

definition equalExcept :: "string list \<Rightarrow> obj \<Rightarrow> obj \<Rightarrow> bool" where
  "equalExcept ks a b =
     list_all (\<lambda>k. k \<in> set ks \<or> getProp a k = getProp b k) (map fst a @ map fst b)"

section \<open>The page\<close>

text \<open>
  An element as the extractor reads it: its tag name in lower case, its attributes, its
  kind, and two values that come from the layout and are given with the element:
  \<^verbatim>\<open>innerText\<close> and the left edge of \<^verbatim>\<open>getBoundingClientRect()\<close> in whole pixels (\<open>None\<close>
  when the call throws). Only an HTML element has an \<^verbatim>\<open>innerText\<close>: on an SVG element and
  on an element of another namespace (MathML) the property is \<^verbatim>\<open>undefined\<close> and the field
  is not read. The \<^verbatim>\<open>className\<close> of an SVG element is an object, not a string. A node is a
  text node, an element with its open shadow root (if any) and its child nodes, or another
  node (a comment).
\<close>

datatype elemKind = Html | Svg | OtherXml

record elemInfo =
  tagName :: string
  attributes :: "(string \<times> jsstring) list"
  kind :: elemKind
  innerText :: jsstring
  rectLeft :: "int option"

datatype node =
    TextNode jsstring
  | OtherNode
  | Element elemInfo "node list option" "node list"

definition getAttribute :: "elemInfo \<Rightarrow> string \<Rightarrow> jsstring option" where
  "getAttribute i name = map_of (attributes i) name"

definition hasAttribute :: "elemInfo \<Rightarrow> string \<Rightarrow> bool" where
  "hasAttribute i name = (map_of (attributes i) name \<noteq> None)"

text \<open>The class attribute: \<^verbatim>\<open>className\<close> of an element that is not an SVG element.\<close>

definition className :: "elemInfo \<Rightarrow> jsstring" where
  "className i = (case getAttribute i ''class'' of None \<Rightarrow> [] | Some v \<Rightarrow> v)"

text \<open>\<^verbatim>\<open>classList\<close>: the class attribute split at ASCII white space.\<close>

definition isAsciiSpace :: "nat \<Rightarrow> bool" where
  "isAsciiSpace c = (c = 9 \<or> c = 10 \<or> c = 12 \<or> c = 13 \<or> c = 32)"

fun tokens :: "jsstring \<Rightarrow> jsstring \<Rightarrow> jsstring list" where
  "tokens cur [] = (if cur = [] then [] else [cur])"
| "tokens cur (c # cs) =
     (if isAsciiSpace c then (if cur = [] then [] else [cur]) @ tokens [] cs
      else tokens (cur @ [c]) cs)"

definition classContains :: "elemInfo \<Rightarrow> string \<Rightarrow> bool" where
  "classContains i name = (str name \<in> set (tokens [] (className i)))"

fun textContent :: "node \<Rightarrow> jsstring" where
  "textContent (TextNode t) = t"
| "textContent OtherNode = []"
| "textContent (Element i sh cs) = concat (map textContent cs)"

subsection \<open>Elements in their place\<close>

text \<open>
  An element together with what \<^verbatim>\<open>parentElement\<close> and \<^verbatim>\<open>previousElementSibling\<close> read: the
  sibling nodes before it, nearest first, and its parent element (\<open>None\<close> at the top of the
  document or of a shadow root).
\<close>

datatype loc =
  Loc (el: elemInfo) (shadow: "node list option") (kids: "node list")
      (before: "node list") (parentElement: "loc option")

definition asNode :: "loc \<Rightarrow> node" where
  "asNode l = Element (el l) (shadow l) (kids l)"

text \<open>\<^verbatim>\<open>querySelectorAll('*')\<close> below a list of child nodes: the elements in document order.\<close>

fun elems :: "loc option \<Rightarrow> node list \<Rightarrow> node list \<Rightarrow> loc list" where
  "elems up bf [] = []"
| "elems up bf (Element i sh cs # ns) =
     Loc i sh cs bf up # elems (Some (Loc i sh cs bf up)) [] cs
       @ elems up (Element i sh cs # bf) ns"
| "elems up bf (n # ns) = elems up (n # bf) ns"

text \<open>
  \<^verbatim>\<open>getDeepElements(root)\<close>: the elements of the tree, then for each of them in order that
  has a shadow root, the deep elements of that root.
\<close>

fun shadowElems :: "node list \<Rightarrow> loc list" where
  "shadowElems [] = []"
| "shadowElems (Element i sh cs # ns) =
     (case sh of None \<Rightarrow> [] | Some scs \<Rightarrow> elems None [] scs @ shadowElems scs)
       @ shadowElems cs @ shadowElems ns"
| "shadowElems (n # ns) = shadowElems ns"

definition getDeepElements :: "node list \<Rightarrow> loc list" where
  "getDeepElements root = elems None [] root @ shadowElems root"

text \<open>\<^verbatim>\<open>node.querySelector(sel)\<close>: the first element below the node that matches.\<close>

definition querySelector :: "(elemInfo \<Rightarrow> bool) \<Rightarrow> node list \<Rightarrow> loc option" where
  "querySelector matches cs = find (\<lambda>l. matches (el l)) (elems None [] cs)"

subsection \<open>Markdown\<close>

definition isWord :: "nat \<Rightarrow> bool" where
  "isWord c = ((48 \<le> c \<and> c \<le> 57) \<or> (65 \<le> c \<and> c \<le> 90) \<or> c = 95 \<or> (97 \<le> c \<and> c \<le> 122))"

text \<open>
  \<^verbatim>\<open>s.match(/language-(\w+)/)?.[1]\<close>: at the first place where \<^verbatim>\<open>language-\<close> is followed by a
  word character, the longest run of word characters.
\<close>

fun matchLanguage :: "jsstring \<Rightarrow> jsstring option" where
  "matchLanguage [] = None"
| "matchLanguage (c # cs) =
     (if prefix (str ''language-'') (c # cs) \<and> takeWhile isWord (drop 9 (c # cs)) \<noteq> []
      then Some (takeWhile isWord (drop 9 (c # cs)))
      else matchLanguage cs)"

definition isNoise :: "elemInfo \<Rightarrow> bool" where
  "isNoise i = (classContains i ''sr-only'' \<or> hasAttribute i ''aria-hidden''
     \<or> tagName i \<in> set [''script'', ''style'', ''nav'', ''header'', ''footer'', ''button''])"

text \<open>
  The fenced block of a \<^verbatim>\<open>pre\<close> element with child nodes \<open>cs\<close>. The class of the \<^verbatim>\<open>code\<close>
  element is read as a string, as it is on every element that is not an SVG element.
\<close>

definition codeBlock :: "elemInfo \<Rightarrow> node list option \<Rightarrow> node list \<Rightarrow> jsstring" where
  "codeBlock i sh cs =
     (let code = querySelector (\<lambda>c. tagName c = ''code'') cs;
          lang = (case code of
                    None \<Rightarrow> []
                  | Some c \<Rightarrow> (case matchLanguage (className (el c)) of
                                None \<Rightarrow> [] | Some l \<Rightarrow> l))
      in str [CHR 0x0A] @ str ''```'' @ lang @ str [CHR 0x0A]
           @ textContent (case code of None \<Rightarrow> Element i sh cs | Some c \<Rightarrow> asNode c)
           @ str [CHR 0x0A] @ str ''```'' @ str [CHR 0x0A, CHR 0x0A])"

text \<open>
  \<^verbatim>\<open>extractMarkdownFromElement\<close>, \<^verbatim>\<open>getChildrenMarkdown\<close> (over the child nodes), and the
  \<^verbatim>\<open>forEach\<close> over the children of a list: \<open>listItems ordered i ns\<close> renders the element
  children in \<open>ns\<close>, the first of them having index \<open>i\<close> among the element children.
\<close>

fun extractMarkdownFromElement :: "node \<Rightarrow> jsstring"
  and getChildrenMarkdown :: "node list \<Rightarrow> jsstring"
  and listItems :: "bool \<Rightarrow> nat \<Rightarrow> node list \<Rightarrow> jsstring" where
  "extractMarkdownFromElement (TextNode t) = t"
| "extractMarkdownFromElement OtherNode = []"
| "extractMarkdownFromElement (Element i sh cs) =
     (if isNoise i then []
      else if tagName i = ''pre'' then codeBlock i sh cs
      else if tagName i = ''code''
        then str '' `'' @ textContent (Element i sh cs) @ str ''` ''
      else if tagName i = ''strong'' \<or> tagName i = ''b''
        then str ''**'' @ getChildrenMarkdown cs @ str ''**''
      else if tagName i = ''em'' \<or> tagName i = ''i''
        then str ''*'' @ getChildrenMarkdown cs @ str ''*''
      else if tagName i = ''a''
        then str ''['' @ trim (textContent (Element i sh cs)) @ str '']('' 
               @ (case getAttribute i ''href'' of None \<Rightarrow> [] | Some h \<Rightarrow> h) @ str '')''
      else if tagName i = ''ul'' \<or> tagName i = ''ol''
        then str [CHR 0x0A] @ listItems (tagName i = ''ol'') 0 cs @ str [CHR 0x0A]
      else if tagName i = ''p'' then trim (getChildrenMarkdown cs) @ str [CHR 0x0A, CHR 0x0A]
      else if tagName i = ''br'' then str [CHR 0x0A]
      else getChildrenMarkdown cs)"
| "getChildrenMarkdown [] = []"
| "getChildrenMarkdown (n # ns) = extractMarkdownFromElement n @ getChildrenMarkdown ns"
| "listItems ordered k [] = []"
| "listItems ordered k (Element i sh cs # ns) =
     (if tagName i = ''li''
      then (if ordered then decimal (Suc k) @ str ''. '' else str ''- '')
             @ trim (extractMarkdownFromElement (Element i sh cs)) @ str [CHR 0x0A]
      else [])
       @ listItems ordered (Suc k) ns"
| "listItems ordered k (n # ns) = listItems ordered k ns"

subsection \<open>Roles\<close>

datatype role = User | Assistant

text \<open>\<^verbatim>\<open>el.closest(tag)\<close> finds something: the element or one of its ancestors has the tag.\<close>

fun closest :: "string \<Rightarrow> loc \<Rightarrow> bool" where
  "closest tg (Loc i sh cs bf up) =
     (tagName i = tg \<or> (case up of None \<Rightarrow> False | Some p \<Rightarrow> closest tg p))"

text \<open>\<^verbatim>\<open>a || b\<close> on two results of \<^verbatim>\<open>getAttribute\<close> (\<open>None\<close> is \<^verbatim>\<open>null\<close>).\<close>

definition attrOr :: "jsstring option \<Rightarrow> jsstring option \<Rightarrow> jsstring option" where
  "attrOr a b = (case a of None \<Rightarrow> b | Some s \<Rightarrow> if s = [] then b else a)"

definition userLabel :: "jsstring \<Rightarrow> bool" where
  "userLabel aria = (strIncludes aria (str ''you'') \<or> strIncludes aria (str ''user'')
     \<or> strIncludes aria [20320] \<or> strIncludes aria [29992, 25143]
     \<or> strIncludes aria [25552, 38382])"

definition userText :: "jsstring \<Rightarrow> bool" where
  "userText text = (strIncludes text (str ''you'') \<or> strIncludes text (str ''user'')
     \<or> strIncludes text [20320])"

definition assistantLabel :: "jsstring \<Rightarrow> bool" where
  "assistantLabel aria = (strIncludes aria (str ''gemini'') \<or> strIncludes aria (str ''assistant'')
     \<or> strIncludes aria (str ''ai'') \<or> strIncludes aria [27169, 22411]
     \<or> strIncludes aria [21161, 25163] \<or> strIncludes aria [22238, 31572])"

definition assistantText :: "jsstring \<Rightarrow> bool" where
  "assistantText text = (strIncludes text (str ''gemini'') \<or> strIncludes text (str ''assistant'')
     \<or> strIncludes text (str ''ai''))"

text \<open>
  \<^verbatim>\<open>detectRole(el, index)\<close>; \<open>innerWidth\<close> is \<^verbatim>\<open>window.innerWidth\<close>, and
  \<^verbatim>\<open>rect.left > window.innerWidth * 0.5\<close> is \<open>2 * left > innerWidth\<close>. When the first two
  tiers decide nothing, \<^verbatim>\<open>el.innerText.toLowerCase()\<close> is evaluated, which throws a TypeError
  on an element that is not an HTML element.
\<close>

definition truthyAttr :: "jsstring option \<Rightarrow> bool" where
  "truthyAttr a = (case a of None \<Rightarrow> False | Some s \<Rightarrow> s \<noteq> [])"

definition detectRole :: "int \<Rightarrow> loc \<Rightarrow> nat \<Rightarrow> error + role" where
  "detectRole innerWidth l index =
     (let roleAttr = attrOr (getAttribute (el l) ''data-message-author-role'')
                            (getAttribute (el l) ''data-role'');
          aria = toLowerCase (case getAttribute (el l) ''aria-label'' of
                                None \<Rightarrow> [] | Some a \<Rightarrow> a);
          text = take 50 (toLowerCase (innerText (el l)))
      in if tagName (el l) = ''user-query'' \<or> closest ''user-query'' l then Inr User
         else if tagName (el l) = ''model-response'' \<or> closest ''model-response'' l
           then Inr Assistant
         else if truthyAttr roleAttr
           then Inr (if roleAttr = Some (str ''user'') then User else Assistant)
         else if kind (el l) \<noteq> Html then Inl TypeError
         else if userLabel aria \<or> userText text then Inr User
         else if assistantLabel aria \<or> assistantText text then Inr Assistant
         else if (case rectLeft (el l) of None \<Rightarrow> False | Some left \<Rightarrow> 2 * left > innerWidth)
           then Inr User
         else Inr (if index mod 2 = 0 then User else Assistant))"

subsection \<open>Messages\<close>

text \<open>
  The filter that picks the candidate blocks. Its tests run from left to right: when the
  tag and the \<^verbatim>\<open>data-testid\<close> decide nothing, \<^verbatim>\<open>cls.includes\<close> is called, and on an SVG
  element, whose \<^verbatim>\<open>className\<close> is an object without \<^verbatim>\<open>includes\<close>, that call throws a TypeError.
\<close>

definition isBlock :: "elemInfo \<Rightarrow> error + bool" where
  "isBlock i =
     (let testid = (case getAttribute i ''data-testid'' of None \<Rightarrow> [] | Some t \<Rightarrow> t);
          cls = className i
      in if tagName i = ''message-content'' \<or> tagName i = ''user-query''
            \<or> tagName i = ''model-response''
            \<or> prefix (str ''conversation-turn-'') testid then Inr True
         else if kind i = Svg then Inl TypeError
         else Inr (strIncludes cls (str ''ds-message'') \<or> strIncludes cls (str ''message'')
                   \<or> strIncludes cls (str ''chat-turn'')
                   \<or> strIncludes cls (str ''conversation-turn'')
                   \<or> hasAttribute i ''data-test-render-count''
                   \<or> hasAttribute i ''data-message-author-role''))"

text \<open>
  The selector \<^verbatim>\<open>.markdown, .prose, .ds-markdown, .query-content, .model-response-text,
  [class*="message-content"]\<close>.
\<close>

definition isContent :: "elemInfo \<Rightarrow> bool" where
  "isContent i =
     (classContains i ''markdown'' \<or> classContains i ''prose'' \<or> classContains i ''ds-markdown''
      \<or> classContains i ''query-content'' \<or> classContains i ''model-response-text''
      \<or> (hasAttribute i ''class'' \<and> strIncludes (className i) (str ''message-content'')))"

type_synonym message = "role \<times> jsstring"

text \<open>
  A \<^verbatim>\<open>forEach\<close> whose callback pushes messages or throws: the messages of all turns in
  order, or the first error.
\<close>

fun forEachE :: "('a \<Rightarrow> error + message list) \<Rightarrow> 'a list \<Rightarrow> error + message list" where
  "forEachE f [] = Inr []"
| "forEachE f (x # xs) =
     (case f x of
        Inl e \<Rightarrow> Inl e
      | Inr ms \<Rightarrow> (case forEachE f xs of
                    Inl e \<Rightarrow> Inl e
                  | Inr rest \<Rightarrow> Inr (ms @ rest)))"

text \<open>One turn of \<^verbatim>\<open>blocks.forEach((el, i) => ...)\<close>: the message it pushes, if any.\<close>

definition processBlock :: "int \<Rightarrow> loc \<Rightarrow> nat \<Rightarrow> error + message list" where
  "processBlock innerWidth l i =
     (case detectRole innerWidth l i of
        Inl e \<Rightarrow> Inl e
      | Inr role \<Rightarrow>
          (let contentEl = (case querySelector isContent (kids l) of
                              None \<Rightarrow> asNode l | Some c \<Rightarrow> asNode c);
               content = trim (extractMarkdownFromElement contentEl)
           in Inr (if content \<noteq> [] \<and> length content > 2 then [(role, content)] else [])))"

definition primaryScan :: "int \<Rightarrow> loc list \<Rightarrow> error + message list" where
  "primaryScan innerWidth all =
     (case filterE (\<lambda>l. isBlock (el l)) all of
        Inl e \<Rightarrow> Inl e
      | Inr blocks \<Rightarrow>
          forEachE (\<lambda>(l, i). processBlock innerWidth l i) (zip blocks [0..<length blocks]))"

text \<open>\<^verbatim>\<open>el.previousElementSibling\<close>\<close>

fun firstElement :: "node list \<Rightarrow> loc option \<Rightarrow> loc option" where
  "firstElement [] up = None"
| "firstElement (Element i sh cs # bf) up = Some (Loc i sh cs bf up)"
| "firstElement (n # bf) up = firstElement bf up"

definition previousElementSibling :: "loc \<Rightarrow> loc option" where
  "previousElementSibling l = firstElement (before l) (parentElement l)"

text \<open>
  The loop \<^verbatim>\<open>while (prev && prev.innerText.length < 5) prev = prev.previousElementSibling\<close>,
  from \<open>start\<close>: \<open>walkSiblings\<close> is the loop once it moves along the siblings before an
  element, nearest first. Reading \<^verbatim>\<open>prev.innerText.length\<close> throws a TypeError when \<open>prev\<close> is
  not an HTML element.
\<close>

fun walkSiblings :: "node list \<Rightarrow> loc option \<Rightarrow> error + loc option" where
  "walkSiblings [] up = Inr None"
| "walkSiblings (Element i sh cs # bf) up =
     (if kind i \<noteq> Html then Inl TypeError
      else if length (innerText i) < 5 then walkSiblings bf up
      else Inr (Some (Loc i sh cs bf up)))"
| "walkSiblings (n # bf) up = walkSiblings bf up"

definition walkBack :: "loc option \<Rightarrow> error + loc option" where
  "walkBack start =
     (case start of
        None \<Rightarrow> Inr None
      | Some l \<Rightarrow> if kind (el l) \<noteq> Html then Inl TypeError
                  else if length (innerText (el l)) < 5
                  then walkSiblings (before l) (parentElement l)
                  else Inr (Some l))"

definition isAnswer :: "elemInfo \<Rightarrow> bool" where
  "isAnswer i = (classContains i ''markdown'' \<or> classContains i ''prose''
                 \<or> classContains i ''ds-markdown'')"

text \<open>What the fallback pushes for one container \<open>ai\<close>, the walk starting at its parent.\<close>

definition fallbackPair :: "loc \<Rightarrow> error + message list" where
  "fallbackPair ai =
     (case walkBack (parentElement ai) of
        Inl e \<Rightarrow> Inl e
      | Inr prev \<Rightarrow>
          (let found = (case prev of None \<Rightarrow> [] | Some p \<Rightarrow> trim (innerText (el p)))
           in Inr ((if found \<noteq> [] then [(User, found)] else [])
                     @ [(Assistant, trim (extractMarkdownFromElement (asNode ai)))])))"

definition fallbackScan :: "loc list \<Rightarrow> error + message list" where
  "fallbackScan all = forEachE fallbackPair (filter (\<lambda>l. isAnswer (el l)) all)"

text \<open>
  The list \<^verbatim>\<open>messages\<close> of \<^verbatim>\<open>exportChatToMarkdown\<close> after its steps 2 to 4, or the error
  that leaves the function.
\<close>

definition collectMessages :: "int \<Rightarrow> node list \<Rightarrow> error + message list" where
  "collectMessages innerWidth root =
     (let all = getDeepElements root in
      case primaryScan innerWidth all of
        Inl e \<Rightarrow> Inl e
      | Inr messages \<Rightarrow> if length messages = 0 then fallbackScan all else Inr messages)"

text \<open>
  Step 5: a message is kept when its role and the first 100 code units of its content
  were not seen before; the result is \<^verbatim>\<open>null\<close> when nothing is left.
\<close>

fun deduplicate :: "(role \<times> jsstring) list \<Rightarrow> message list \<Rightarrow> message list" where
  "deduplicate seen [] = []"
| "deduplicate seen (m # ms) =
     (if (fst m, take 100 (snd m)) \<in> set seen then deduplicate seen ms
      else m # deduplicate ((fst m, take 100 (snd m)) # seen) ms)"

definition exportMessages :: "int \<Rightarrow> node list \<Rightarrow> error + message list option" where
  "exportMessages innerWidth root =
     (case collectMessages innerWidth root of
        Inl e \<Rightarrow> Inl e
      | Inr messages \<Rightarrow>
          (let final = deduplicate [] messages
           in Inr (if length final = 0 then None else Some final)))"

subsection \<open>Notions of the spec\<close>

text \<open>A fenced code block tagged \<open>lang\<close> with body \<open>body\<close>, without the blank lines around it.\<close>

definition fencedBlock :: "jsstring \<Rightarrow> jsstring \<Rightarrow> jsstring" where
  "fencedBlock lang body = str ''```'' @ lang @ str [CHR 0x0A] @ body @ str [CHR 0x0A] @ str ''```''"

text \<open>
  The renderer, started at a node, gets to the node \<open>t\<close>: it is there, or it goes down
  through an element that is not pruned and renders its children (not a \<^verbatim>\<open>pre\<close>, inline
  \<^verbatim>\<open>code\<close>, link or \<^verbatim>\<open>br\<close>; in a list only through the \<^verbatim>\<open>li\<close> children).
\<close>

fun isListItem :: "node \<Rightarrow> bool" where
  "isListItem (Element i sh cs) = (tagName i = ''li'')"
| "isListItem n = False"

fun reaches :: "node \<Rightarrow> node \<Rightarrow> bool" where
  "reaches (Element i sh cs) t =
     (Element i sh cs = t \<or>
      (\<not> isNoise i \<and> tagName i \<notin> set [''pre'', ''code'', ''a'', ''br''] \<and>
       (if tagName i = ''ul'' \<or> tagName i = ''ol''
        then list_ex (\<lambda>c. isListItem c \<and> reaches c t) cs
        else list_ex (\<lambda>c. reaches c t) cs)))"
| "reaches n t = (n = t)"

section \<open>Properties of the store\<close>

lemma mset_insertBy: "mset (insertBy cmp x xs) = add_mset x (mset xs)"
  by (induction xs) auto

lemma mset_sortBy: "mset (sortBy cmp xs) = mset xs"
  unfolding sortBy_def by (induction xs) (auto simp: mset_insertBy)

lemma set_sortBy: "set (sortBy cmp xs) = set xs"
  using mset_sortBy [of cmp xs] by (metis set_mset_mset)

lemma mset_cleanup_fst: "mset (fst (checkAndCleanupStorage cs)) = mset cs"
  by (simp add: checkAndCleanupStorage_def Let_def mset_sortBy)

lemma saveConversation_writeOk:
  assumes "writeOk st"
  shows "saveConversation st e d =
     (Inr (newConversation e d),
      st\<lparr>stored := fst (checkAndCleanupStorage (getAllConversations st @ [newConversation e d])),
         writes := Suc (writes st)\<rparr>)"
  using assms by (simp add: saveConversation_def storageSet_def Let_def)

lemma elem_le_sum_list_nat: "(x::nat) \<in> set xs \<Longrightarrow> x \<le> sum_list xs"
  by (induction xs) auto

lemma length_le_quoteBody: "length s \<le> quoteBody s"
  by (induction s rule: quoteBody.induct) (auto simp: unitLen_def)

lemma jsonLength_JObj_ge:
  assumes "(k, JStr s) \<in> set c"
  shows "length s \<le> jsonLength (JObj c)"
proof -
  let ?f = "\<lambda>p. if snd p = JUndefined then 0
                  else quoteLen (str (fst p)) + 1 + jsonLength (snd p)"
  have "?f (k, JStr s) \<in> set (map ?f c)"
    using assms by (simp only: set_map) (rule imageI)
  then have "?f (k, JStr s) \<le> sum_list (map ?f c)"
    by (rule elem_le_sum_list_nat)
  moreover have "length s \<le> ?f (k, JStr s)"
    using length_le_quoteBody [of s] by (simp add: quoteLen_def)
  ultimately show ?thesis by simp
qed

lemma jsonLength_list_ge:
  assumes "c \<in> set cs" and "(k, JStr s) \<in> set c"
  shows "length s \<le> jsonLength (JArr (map JObj cs))"
proof -
  have "jsonLength (JObj c) \<in> set (map jsonLength (map JObj cs))"
    using assms(1) by force
  then have "jsonLength (JObj c) \<le> sum_list (map jsonLength (map JObj cs))"
    by (rule elem_le_sum_list_nat)
  with jsonLength_JObj_ge [OF assms(2)] show ?thesis by simp
qed

lemma checkAndCleanupStorage_pressure:
  assumes "90 * MAX_STORAGE_SIZE < jsonLength (JArr (map JObj cs)) * 100"
  shows "checkAndCleanupStorage cs =
     (let sorted = sortBy byTimestampDesc cs;
          nonFavorites = filter (\<lambda>c. \<not> truthy (getProp c ''isFavorite'')) sorted in
      if length nonFavorites > 0 then
        (let toRemove = (length nonFavorites + 9) div 10;
             toDelete = map (\<lambda>c. getProp c ''id'')
                            (drop (length nonFavorites - toRemove) nonFavorites)
         in (sorted, filter (\<lambda>c. \<not> arrayIncludes toDelete (getProp c ''id'')) sorted))
      else (sorted, sorted))"
  using assms unfolding checkAndCleanupStorage_def Let_def by simp

subsection \<open>Update\<close>

lemma findIndex_None: "findIndex P xs = None \<longleftrightarrow> (\<forall>x \<in> set xs. \<not> P x)"
  by (induction xs) (auto split: option.splits)

text \<open>
  C7: for every store state and every id that no stored conversation carries,
  \<^verbatim>\<open>updateConversation(id, updates)\<close> fails with Not-Found; the backend is returned as it
  was, with the same stored list and the same number of writes.
\<close>

theorem updateConversation_absent_id:
  assumes "\<forall>conv \<in> set (stored st). \<not> strictEq (getProp conv ''id'') ident"
  shows "updateConversation st now ident updates = (Inl (NotFound ident), st)"
proof -
  have "\<forall>conv \<in> set (getAllConversations st). \<not> strictEq (getProp conv ''id'') ident"
    using assms by (simp add: getAllConversations_def)
  then have "findIndex (\<lambda>conv. strictEq (getProp conv ''id'') ident) (getAllConversations st) = None"
    by (simp add: findIndex_None)
  then show ?thesis
    by (simp add: updateConversation_def)
qed

theorem updateConversation_absent_id_witness:
  "updateConversation
       \<lparr>stored = [[(''id'', JStr (str ''a'')), (''title'', JStr (str ''t''))]],
        readOk = True, writeOk = True, writes = 3\<rparr>
       7 (JStr (str ''b'')) [(''title'', JStr (str ''u''))]
     = (Inl (NotFound (JStr (str ''b''))),
        \<lparr>stored = [[(''id'', JStr (str ''a'')), (''title'', JStr (str ''t''))]],
         readOk = True, writeOk = True, writes = 3\<rparr>)"
proof -
  have h: "\<forall>conv \<in> set (stored \<lparr>stored = [[(''id'', JStr (str ''a'')), (''title'', JStr (str ''t''))]],
                           readOk = True, writeOk = True, writes = 3\<rparr>).
      \<not> strictEq (getProp conv ''id'') (JStr (str ''b''))"
    by (simp add: getProp_def str_def)
  show ?thesis
    using updateConversation_absent_id [OF h, of 7 "[(''title'', JStr (str ''u''))]"]
    by simp
qed

subsection \<open>Save and the capacity check\<close>

lemma pressure_example:
  "90 * MAX_STORAGE_SIZE
      < jsonLength (JArr (map JObj
          [newConversation \<lparr>nowId = 5, rnd = str ''a'', nowTs = 5, href = str ''u''\<rparr>
              [(''content'', JStr (replicate 4718593 97))],
           newConversation \<lparr>nowId = 7, rnd = str ''b'', nowTs = 7, href = str ''u''\<rparr> []])) * 100"
proof -
  have "length (replicate 4718593 (97::nat)) \<le> jsonLength (JArr (map JObj
          [newConversation \<lparr>nowId = 5, rnd = str ''a'', nowTs = 5, href = str ''u''\<rparr>
              [(''content'', JStr (replicate 4718593 97))],
           newConversation \<lparr>nowId = 7, rnd = str ''b'', nowTs = 7, href = str ''u''\<rparr> []]))"
    by (rule jsonLength_list_ge [where k = "''content''"
          and c = "newConversation \<lparr>nowId = 5, rnd = str ''a'', nowTs = 5, href = str ''u''\<rparr>
              [(''content'', JStr (replicate 4718593 97))]"])
       (simp_all add: newConversation_def getProp_def orElse_def)
  then show ?thesis by (simp add: MAX_STORAGE_SIZE_def)
qed

text \<open>
  C1: a store that holds one non-favorite record of more than 4718592 characters, itself
  written by \<^verbatim>\<open>saveConversation\<close>, and a save of the empty object. The list is over 90% of
  the ceiling and the list that \<^verbatim>\<open>checkAndCleanupStorage\<close> returns leaves the old record out,
  but the list that \<^verbatim>\<open>saveConversation\<close> writes still holds it: the returned list is not
  the one written.
\<close>

theorem saveConversation_eviction_discarded:
  "stored (snd (saveConversation
       \<lparr>stored = [newConversation \<lparr>nowId = 5, rnd = str ''a'', nowTs = 5, href = str ''u''\<rparr>
                    [(''content'', JStr (replicate 4718593 97))]],
        readOk = True, writeOk = True, writes = 0\<rparr>
       \<lparr>nowId = 7, rnd = str ''b'', nowTs = 7, href = str ''u''\<rparr> []))
   = [newConversation \<lparr>nowId = 7, rnd = str ''b'', nowTs = 7, href = str ''u''\<rparr> [],
      newConversation \<lparr>nowId = 5, rnd = str ''a'', nowTs = 5, href = str ''u''\<rparr>
        [(''content'', JStr (replicate 4718593 97))]]
   \<and> snd (checkAndCleanupStorage
       [newConversation \<lparr>nowId = 5, rnd = str ''a'', nowTs = 5, href = str ''u''\<rparr>
          [(''content'', JStr (replicate 4718593 97))],
        newConversation \<lparr>nowId = 7, rnd = str ''b'', nowTs = 7, href = str ''u''\<rparr> []])
   = [newConversation \<lparr>nowId = 7, rnd = str ''b'', nowTs = 7, href = str ''u''\<rparr> []]"
  apply (simp add: saveConversation_writeOk getAllConversations_def checkAndCleanupStorage_pressure [OF pressure_example])
  apply (simp add: sortBy_def byTimestampDesc_def newConversation_def getProp_def orElse_def Let_def
       arrayIncludes_def generateId_def str_def decimal.simps)
  done

lemma strictEq_imp_eq: "strictEq a b \<Longrightarrow> a = b"
  by (cases a) auto

lemma find_unique:
  assumes "c \<in> set xs" and "P c" and "\<And>x. x \<in> set xs \<Longrightarrow> P x \<Longrightarrow> x = c"
  shows "find P xs = Some c"
proof (cases "find P xs")
  case None
  with assms(1,2) show ?thesis by (simp add: find_None_iff)
next
  case (Some y)
  then have "P y \<and> y \<in> set xs"
    by (auto simp: find_Some_iff)
  then have "y = c" using assms(3) by blast
  with Some show ?thesis by simp
qed

lemma set_cleanup_fst: "set (fst (checkAndCleanupStorage cs)) = set cs"
  using mset_cleanup_fst [of cs] by (metis set_mset_mset)

lemma newConversation_keys:
  "map fst (newConversation e d) =
     [''id'', ''title'', ''content'', ''provider'', ''timestamp'', ''url'', ''conversationId'',
      ''tags'', ''isFavorite'', ''notes'', ''messageCount'']"
  by (simp add: newConversation_def)

lemma newConversation_id: "getProp (newConversation e d) ''id'' = JStr (generateId e)"
  by (simp add: newConversation_def getProp_def)

lemma newConversation_cong:
  assumes "list_all (\<lambda>k. getProp d' k = getProp d k)
             [''title'', ''content'', ''provider'', ''url'', ''conversationId'', ''tags'',
              ''isFavorite'', ''notes'', ''messageCount'']"
  shows "newConversation e d' = newConversation e d"
proof -
  from assms have
    "getProp d' ''title'' = getProp d ''title''"
    "getProp d' ''content'' = getProp d ''content''"
    "getProp d' ''provider'' = getProp d ''provider''"
    "getProp d' ''url'' = getProp d ''url''"
    "getProp d' ''conversationId'' = getProp d ''conversationId''"
    "getProp d' ''tags'' = getProp d ''tags''"
    "getProp d' ''isFavorite'' = getProp d ''isFavorite''"
    "getProp d' ''notes'' = getProp d ''notes''"
    "getProp d' ''messageCount'' = getProp d ''messageCount''"
    by (simp_all only: list.pred_inject)
  then show ?thesis
    unfolding newConversation_def by (simp only:)
qed

text \<open>
  C3: the record that \<^verbatim>\<open>saveConversation\<close> returns is the one it adds to the stored list; its
  property names are exactly the eleven of the object literal, so it has no \<^verbatim>\<open>messages\<close> and
  no \<^verbatim>\<open>modifiedAt\<close>; and two inputs that agree on the nine properties the literal reads
  give the same result and the same backend, whatever else they hold.
\<close>

theorem saveConversation_eleven_fields:
  assumes "writeOk st"
  shows "fst (saveConversation st e conversationData) = Inr (newConversation e conversationData)
     \<and> mset (stored (snd (saveConversation st e conversationData)))
         = mset (getAllConversations st) + {#newConversation e conversationData#}
     \<and> map fst (newConversation e conversationData) =
         [''id'', ''title'', ''content'', ''provider'', ''timestamp'', ''url'',
          ''conversationId'', ''tags'', ''isFavorite'', ''notes'', ''messageCount'']
     \<and> getProp (newConversation e conversationData) ''messages'' = JUndefined
     \<and> getProp (newConversation e conversationData) ''modifiedAt'' = JUndefined
     \<and> (list_all (\<lambda>k. getProp other k = getProp conversationData k)
             [''title'', ''content'', ''provider'', ''url'', ''conversationId'', ''tags'',
              ''isFavorite'', ''notes'', ''messageCount'']
           \<longrightarrow> saveConversation st e other = saveConversation st e conversationData)"
proof -
  have ret: "fst (saveConversation st e conversationData) = Inr (newConversation e conversationData)"
    using assms by (simp add: saveConversation_writeOk)
  have app: "mset (stored (snd (saveConversation st e conversationData)))
         = mset (getAllConversations st) + {#newConversation e conversationData#}"
    using assms by (simp add: saveConversation_writeOk mset_cleanup_fst)
  have absent: "getProp (newConversation e conversationData) ''messages'' = JUndefined"
       "getProp (newConversation e conversationData) ''modifiedAt'' = JUndefined"
    by (simp_all add: newConversation_def getProp_def)
  have indep: "list_all (\<lambda>k. getProp other k = getProp conversationData k)
             [''title'', ''content'', ''provider'', ''url'', ''conversationId'', ''tags'',
              ''isFavorite'', ''notes'', ''messageCount'']
           \<longrightarrow> saveConversation st e other = saveConversation st e conversationData"
  proof (intro impI)
    assume "list_all (\<lambda>k. getProp other k = getProp conversationData k)
             [''title'', ''content'', ''provider'', ''url'', ''conversationId'', ''tags'',
              ''isFavorite'', ''notes'', ''messageCount'']"
    then have "newConversation e other = newConversation e conversationData"
      by (rule newConversation_cong)
    then show "saveConversation st e other = saveConversation st e conversationData"
      unfolding saveConversation_def by (simp only:)
  qed
  show ?thesis
    by (intro conjI ret app newConversation_keys absent indep)
qed

theorem saveConversation_eleven_fields_witness:
  "fst (saveConversation \<lparr>stored = [], readOk = True, writeOk = True, writes = 0\<rparr>
          \<lparr>nowId = 5, rnd = str ''a'', nowTs = 6, href = str ''u''\<rparr>
          [(''title'', JStr (str ''T'')), (''messages'', JArr [JStr (str ''hi'')]),
           (''modifiedAt'', JNum 9)])
    = Inr [(''id'', JStr (str ''conv_5_a'')), (''title'', JStr (str ''T'')),
           (''content'', JStr []), (''provider'', JStr (str ''unknown'')),
           (''timestamp'', JNum 6), (''url'', JStr (str ''u'')),
           (''conversationId'', JStr []), (''tags'', JArr []),
           (''isFavorite'', JBool False), (''notes'', JStr []), (''messageCount'', JNum 0)]
   \<and> saveConversation \<lparr>stored = [], readOk = True, writeOk = True, writes = 0\<rparr>
          \<lparr>nowId = 5, rnd = str ''a'', nowTs = 6, href = str ''u''\<rparr>
          [(''title'', JStr (str ''T''))]
     = saveConversation \<lparr>stored = [], readOk = True, writeOk = True, writes = 0\<rparr>
          \<lparr>nowId = 5, rnd = str ''a'', nowTs = 6, href = str ''u''\<rparr>
          [(''title'', JStr (str ''T'')), (''messages'', JArr [JStr (str ''hi'')]),
           (''modifiedAt'', JNum 9)]"
proof -
  have w: "writeOk \<lparr>stored = [], readOk = True, writeOk = True, writes = 0\<rparr>"
    by simp
  have same: "list_all (\<lambda>k. getProp [(''title'', JStr (str ''T''))] k
                 = getProp [(''title'', JStr (str ''T'')), (''messages'', JArr [JStr (str ''hi'')]),
                            (''modifiedAt'', JNum 9)] k)
      [''title'', ''content'', ''provider'', ''url'', ''conversationId'', ''tags'',
       ''isFavorite'', ''notes'', ''messageCount'']"
    by (simp add: getProp_def)
  have new: "newConversation \<lparr>nowId = 5, rnd = str ''a'', nowTs = 6, href = str ''u''\<rparr>
          [(''title'', JStr (str ''T'')), (''messages'', JArr [JStr (str ''hi'')]),
           (''modifiedAt'', JNum 9)]
      = [(''id'', JStr (str ''conv_5_a'')), (''title'', JStr (str ''T'')),
           (''content'', JStr []), (''provider'', JStr (str ''unknown'')),
           (''timestamp'', JNum 6), (''url'', JStr (str ''u'')),
           (''conversationId'', JStr []), (''tags'', JArr []),
           (''isFavorite'', JBool False), (''notes'', JStr []), (''messageCount'', JNum 0)]"
    by (simp add: newConversation_def getProp_def orElse_def generateId_def str_def decimal.simps)
  note inst = saveConversation_eleven_fields [OF w,
        of "\<lparr>nowId = 5, rnd = str ''a'', nowTs = 6, href = str ''u''\<rparr>"
           "[(''title'', JStr (str ''T'')), (''messages'', JArr [JStr (str ''hi'')]),
             (''modifiedAt'', JNum 9)]"
           "[(''title'', JStr (str ''T''))]", unfolded new]
  from inst have first: "fst (saveConversation \<lparr>stored = [], readOk = True, writeOk = True, writes = 0\<rparr>
          \<lparr>nowId = 5, rnd = str ''a'', nowTs = 6, href = str ''u''\<rparr>
          [(''title'', JStr (str ''T'')), (''messages'', JArr [JStr (str ''hi'')]),
           (''modifiedAt'', JNum 9)])
    = Inr [(''id'', JStr (str ''conv_5_a'')), (''title'', JStr (str ''T'')),
           (''content'', JStr []), (''provider'', JStr (str ''unknown'')),
           (''timestamp'', JNum 6), (''url'', JStr (str ''u'')),
           (''conversationId'', JStr []), (''tags'', JArr []),
           (''isFavorite'', JBool False), (''notes'', JStr []), (''messageCount'', JNum 0)]"
    by (rule conjunct1)
  from inst have "list_all (\<lambda>k. getProp [(''title'', JStr (str ''T''))] k
                 = getProp [(''title'', JStr (str ''T'')), (''messages'', JArr [JStr (str ''hi'')]),
                            (''modifiedAt'', JNum 9)] k)
             [''title'', ''content'', ''provider'', ''url'', ''conversationId'', ''tags'',
              ''isFavorite'', ''notes'', ''messageCount'']
           \<longrightarrow> saveConversation \<lparr>stored = [], readOk = True, writeOk = True, writes = 0\<rparr>
                 \<lparr>nowId = 5, rnd = str ''a'', nowTs = 6, href = str ''u''\<rparr>
                 [(''title'', JStr (str ''T''))]
               = saveConversation \<lparr>stored = [], readOk = True, writeOk = True, writes = 0\<rparr>
                 \<lparr>nowId = 5, rnd = str ''a'', nowTs = 6, href = str ''u''\<rparr>
                 [(''title'', JStr (str ''T'')), (''messages'', JArr [JStr (str ''hi'')]),
                  (''modifiedAt'', JNum 9)]"
    by (elim conjE)
  then have second: "saveConversation \<lparr>stored = [], readOk = True, writeOk = True, writes = 0\<rparr>
          \<lparr>nowId = 5, rnd = str ''a'', nowTs = 6, href = str ''u''\<rparr>
          [(''title'', JStr (str ''T''))]
     = saveConversation \<lparr>stored = [], readOk = True, writeOk = True, writes = 0\<rparr>
          \<lparr>nowId = 5, rnd = str ''a'', nowTs = 6, href = str ''u''\<rparr>
          [(''title'', JStr (str ''T'')), (''messages'', JArr [JStr (str ''hi'')]),
           (''modifiedAt'', JNum 9)]"
    using same by (rule mp)
  show ?thesis
    using first second by (rule conjI)
qed

lemma getConversation_after_save:
  assumes "readOk st" and "writeOk st"
    and fresh: "list_all (\<lambda>c. \<not> strictEq (getProp c ''id'') (JStr (generateId e))) (stored st)"
  shows "getConversation (snd (saveConversation st e d)) (JStr (generateId e))
           = Some (newConversation e d)"
proof -
  let ?new = "newConversation e d"
  let ?P = "\<lambda>conv. strictEq (getProp conv ''id'') (JStr (generateId e))"
  let ?xs = "fst (checkAndCleanupStorage (stored st @ [?new]))"
  have mem: "?new \<in> set ?xs"
    by (simp add: set_cleanup_fst)
  have new: "?P ?new"
    by (simp add: newConversation_id)
  have uniq: "x = ?new" if "x \<in> set ?xs" and "?P x" for x
  proof -
    from that(1) have "x \<in> set (stored st) \<or> x = ?new"
      by (auto simp add: set_cleanup_fst)
    moreover have "\<not> ?P y" if "y \<in> set (stored st)" for y
      using fresh that by (simp add: list_all_iff)
    ultimately show ?thesis using that(2) by blast
  qed
  have "find ?P ?xs = Some ?new"
    using mem new uniq by (rule find_unique)
  then show ?thesis
    using assms(1,2)
    by (simp add: saveConversation_writeOk getConversation_def getAllConversations_def)
qed

lemma newConversation_fields:
  "getProp (newConversation e d) ''timestamp'' = JNum (int (nowTs e))"
  "getProp (newConversation e d) ''title''
     = orElse (getProp d ''title'') (JStr (str ''Untitled Conversation''))"
  "getProp (newConversation e d) ''content'' = orElse (getProp d ''content'') (JStr [])"
  "getProp (newConversation e d) ''provider''
     = orElse (getProp d ''provider'') (JStr (str ''unknown''))"
  "getProp (newConversation e d) ''url'' = orElse (getProp d ''url'') (JStr (href e))"
  "getProp (newConversation e d) ''conversationId''
     = orElse (getProp d ''conversationId'') (JStr [])"
  "getProp (newConversation e d) ''tags'' = orElse (getProp d ''tags'') (JArr [])"
  "getProp (newConversation e d) ''isFavorite''
     = orElse (getProp d ''isFavorite'') (JBool False)"
  "getProp (newConversation e d) ''notes'' = orElse (getProp d ''notes'') (JStr [])"
  "getProp (newConversation e d) ''messageCount''
     = orElse (getProp d ''messageCount'') (JNum 0)"
  by (simp_all add: newConversation_def getProp_def)

text \<open>
  C2, amended: on a backend whose reads and writes succeed, and when no stored conversation
  already carries the generated id, \<^verbatim>\<open>saveConversation(data)\<close> returns a record and
  \<^verbatim>\<open>getConversation\<close> of its id yields that same record. Its \<^verbatim>\<open>id\<close> is the generated id and
  its \<^verbatim>\<open>timestamp\<close> the time of the save; each of \<^verbatim>\<open>title\<close>, \<^verbatim>\<open>content\<close>, \<^verbatim>\<open>provider\<close>, \<^verbatim>\<open>url\<close>,
  \<^verbatim>\<open>conversationId\<close>, \<^verbatim>\<open>tags\<close>, \<^verbatim>\<open>isFavorite\<close>, \<^verbatim>\<open>notes\<close> and \<^verbatim>\<open>messageCount\<close> is the input's
  value when that is truthy and otherwise the default: \<^verbatim>\<open>Untitled Conversation\<close>, the empty
  string, \<^verbatim>\<open>unknown\<close>, the address of the page, the empty string, the empty array, \<^verbatim>\<open>false\<close>,
  the empty string and 0.
\<close>

theorem saveConversation_then_getConversation:
  assumes "readOk st" and "writeOk st"
    and "list_all (\<lambda>c. \<not> strictEq (getProp c ''id'') (JStr (generateId e))) (stored st)"
  shows "\<exists>r. fst (saveConversation st e conversationData) = Inr r
     \<and> getConversation (snd (saveConversation st e conversationData)) (getProp r ''id'') = Some r
     \<and> getProp r ''id'' = JStr (generateId e)
     \<and> getProp r ''timestamp'' = JNum (int (nowTs e))
     \<and> getProp r ''title''
           = orElse (getProp conversationData ''title'') (JStr (str ''Untitled Conversation''))
     \<and> getProp r ''content'' = orElse (getProp conversationData ''content'') (JStr [])
     \<and> getProp r ''provider''
           = orElse (getProp conversationData ''provider'') (JStr (str ''unknown''))
     \<and> getProp r ''url'' = orElse (getProp conversationData ''url'') (JStr (href e))
     \<and> getProp r ''conversationId''
           = orElse (getProp conversationData ''conversationId'') (JStr [])
     \<and> getProp r ''tags'' = orElse (getProp conversationData ''tags'') (JArr [])
     \<and> getProp r ''isFavorite''
           = orElse (getProp conversationData ''isFavorite'') (JBool False)
     \<and> getProp r ''notes'' = orElse (getProp conversationData ''notes'') (JStr [])
     \<and> getProp r ''messageCount''
           = orElse (getProp conversationData ''messageCount'') (JNum 0)"
proof (intro exI conjI)
  show "fst (saveConversation st e conversationData) = Inr (newConversation e conversationData)"
    using assms(2) by (simp add: saveConversation_writeOk)
  show "getConversation (snd (saveConversation st e conversationData))
            (getProp (newConversation e conversationData) ''id'')
         = Some (newConversation e conversationData)"
    unfolding newConversation_id using assms by (rule getConversation_after_save)
qed (rule newConversation_id newConversation_fields)+

lemma checkAndCleanupStorage_small:
  assumes "jsonLength (JArr (map JObj cs)) * 100 \<le> 90 * MAX_STORAGE_SIZE"
  shows "checkAndCleanupStorage cs = (cs, cs)"
  using assms by (simp add: checkAndCleanupStorage_def Let_def)

theorem saveConversation_then_getConversation_witness:
  "getConversation
     (snd (saveConversation \<lparr>stored = [], readOk = True, writeOk = True, writes = 0\<rparr>
             \<lparr>nowId = 5, rnd = str ''a'', nowTs = 6, href = str ''u''\<rparr>
             [(''title'', JStr (str ''T''))]))
     (JStr (str ''conv_5_a''))
   = Some [(''id'', JStr (str ''conv_5_a'')), (''title'', JStr (str ''T'')),
           (''content'', JStr []), (''provider'', JStr (str ''unknown'')),
           (''timestamp'', JNum 6), (''url'', JStr (str ''u'')),
           (''conversationId'', JStr []), (''tags'', JArr []),
           (''isFavorite'', JBool False), (''notes'', JStr []), (''messageCount'', JNum 0)]"
proof -
  let ?st = "\<lparr>stored = [], readOk = True, writeOk = True, writes = 0\<rparr>"
  let ?e = "\<lparr>nowId = 5, rnd = str ''a'', nowTs = 6, href = str ''u''\<rparr>"
  let ?rec = "[(''id'', JStr (str ''conv_5_a'')), (''title'', JStr (str ''T'')),
           (''content'', JStr []), (''provider'', JStr (str ''unknown'')),
           (''timestamp'', JNum 6), (''url'', JStr (str ''u'')),
           (''conversationId'', JStr []), (''tags'', JArr []),
           (''isFavorite'', JBool False), (''notes'', JStr []), (''messageCount'', JNum 0)]"
  have r: "readOk ?st" and w: "writeOk ?st"
    and f: "list_all (\<lambda>c. \<not> strictEq (getProp c ''id'') (JStr (generateId ?e))) (stored ?st)"
    by simp_all
  have new: "newConversation ?e [(''title'', JStr (str ''T''))] = ?rec"
    by (simp add: newConversation_def getProp_def orElse_def generateId_def str_def decimal.simps)
  have ret: "fst (saveConversation ?st ?e [(''title'', JStr (str ''T''))]) = Inr ?rec"
    using w by (simp add: saveConversation_writeOk new)
  have ident: "getProp ?rec ''id'' = JStr (str ''conv_5_a'')"
    by (simp add: getProp_def)
  from saveConversation_then_getConversation [OF r w f, of "[(''title'', JStr (str ''T''))]"]
  obtain rec where "fst (saveConversation ?st ?e [(''title'', JStr (str ''T''))]) = Inr rec"
    and got: "getConversation (snd (saveConversation ?st ?e [(''title'', JStr (str ''T''))]))
                (getProp rec ''id'') = Some rec"
    by blast
  with ret have "rec = ?rec" by simp
  with got ident show ?thesis by simp
qed

text \<open>
  C2, as stated, fails: saved from an object that has all nine properties, with the empty
  string as its \<^verbatim>\<open>title\<close>, the record read back has the title \<^verbatim>\<open>Untitled Conversation\<close>; it
  is not equal to the input outside \<^verbatim>\<open>id\<close> and \<^verbatim>\<open>timestamp\<close>.
\<close>

theorem saveConversation_then_getConversation_counterexample:
  "fst (saveConversation \<lparr>stored = [], readOk = True, writeOk = True, writes = 0\<rparr>
          \<lparr>nowId = 5, rnd = str ''a'', nowTs = 6, href = str ''u''\<rparr>
          [(''title'', JStr []), (''content'', JStr (str ''c'')), (''provider'', JStr (str ''p'')),
           (''url'', JStr (str ''v'')), (''conversationId'', JStr (str ''x'')),
           (''tags'', JArr [JStr (str ''t'')]), (''isFavorite'', JBool True),
           (''notes'', JStr (str ''n'')), (''messageCount'', JNum 2)])
   = Inr [(''id'', JStr (str ''conv_5_a'')), (''title'', JStr (str ''Untitled Conversation'')),
          (''content'', JStr (str ''c'')), (''provider'', JStr (str ''p'')),
          (''timestamp'', JNum 6), (''url'', JStr (str ''v'')),
          (''conversationId'', JStr (str ''x'')), (''tags'', JArr [JStr (str ''t'')]),
          (''isFavorite'', JBool True), (''notes'', JStr (str ''n'')), (''messageCount'', JNum 2)]
   \<and> getConversation
       (snd (saveConversation \<lparr>stored = [], readOk = True, writeOk = True, writes = 0\<rparr>
          \<lparr>nowId = 5, rnd = str ''a'', nowTs = 6, href = str ''u''\<rparr>
          [(''title'', JStr []), (''content'', JStr (str ''c'')), (''provider'', JStr (str ''p'')),
           (''url'', JStr (str ''v'')), (''conversationId'', JStr (str ''x'')),
           (''tags'', JArr [JStr (str ''t'')]), (''isFavorite'', JBool True),
           (''notes'', JStr (str ''n'')), (''messageCount'', JNum 2)]))
       (JStr (str ''conv_5_a''))
   = Some [(''id'', JStr (str ''conv_5_a'')), (''title'', JStr (str ''Untitled Conversation'')),
          (''content'', JStr (str ''c'')), (''provider'', JStr (str ''p'')),
          (''timestamp'', JNum 6), (''url'', JStr (str ''v'')),
          (''conversationId'', JStr (str ''x'')), (''tags'', JArr [JStr (str ''t'')]),
          (''isFavorite'', JBool True), (''notes'', JStr (str ''n'')), (''messageCount'', JNum 2)]
   \<and> \<not> equalExcept [''id'', ''timestamp'']
         [(''id'', JStr (str ''conv_5_a'')), (''title'', JStr (str ''Untitled Conversation'')),
          (''content'', JStr (str ''c'')), (''provider'', JStr (str ''p'')),
          (''timestamp'', JNum 6), (''url'', JStr (str ''v'')),
          (''conversationId'', JStr (str ''x'')), (''tags'', JArr [JStr (str ''t'')]),
          (''isFavorite'', JBool True), (''notes'', JStr (str ''n'')), (''messageCount'', JNum 2)]
         [(''title'', JStr []), (''content'', JStr (str ''c'')), (''provider'', JStr (str ''p'')),
           (''url'', JStr (str ''v'')), (''conversationId'', JStr (str ''x'')),
           (''tags'', JArr [JStr (str ''t'')]), (''isFavorite'', JBool True),
           (''notes'', JStr (str ''n'')), (''messageCount'', JNum 2)]"
proof -
  let ?st = "\<lparr>stored = [], readOk = True, writeOk = True, writes = 0\<rparr>"
  let ?e = "\<lparr>nowId = 5, rnd = str ''a'', nowTs = 6, href = str ''u''\<rparr>"
  let ?d = "[(''title'', JStr []), (''content'', JStr (str ''c'')), (''provider'', JStr (str ''p'')),
           (''url'', JStr (str ''v'')), (''conversationId'', JStr (str ''x'')),
           (''tags'', JArr [JStr (str ''t'')]), (''isFavorite'', JBool True),
           (''notes'', JStr (str ''n'')), (''messageCount'', JNum 2)]"
  let ?rec = "[(''id'', JStr (str ''conv_5_a'')), (''title'', JStr (str ''Untitled Conversation'')),
          (''content'', JStr (str ''c'')), (''provider'', JStr (str ''p'')),
          (''timestamp'', JNum 6), (''url'', JStr (str ''v'')),
          (''conversationId'', JStr (str ''x'')), (''tags'', JArr [JStr (str ''t'')]),
          (''isFavorite'', JBool True), (''notes'', JStr (str ''n'')), (''messageCount'', JNum 2)]"
  have new: "newConversation ?e ?d = ?rec"
    by (simp add: newConversation_def getProp_def orElse_def generateId_def str_def decimal.simps)
  have gen: "generateId ?e = str ''conv_5_a''"
    by (simp add: generateId_def str_def decimal.simps)
  have ret: "fst (saveConversation ?st ?e ?d) = Inr ?rec"
    by (simp add: saveConversation_writeOk new)
  have "getConversation (snd (saveConversation ?st ?e ?d)) (JStr (generateId ?e))
          = Some (newConversation ?e ?d)"
    by (rule getConversation_after_save) simp_all
  then have got: "getConversation (snd (saveConversation ?st ?e ?d)) (JStr (str ''conv_5_a''))
          = Some ?rec"
    by (simp only: new gen)
  have ne: "\<not> equalExcept [''id'', ''timestamp''] ?rec ?d"
    by (simp add: equalExcept_def getProp_def str_def)
  from ret got ne show ?thesis by (intro conjI)
qed

lemma distinct_map_eq:
  assumes "distinct (map f xs)" and "x \<in> set xs" and "y \<in> set xs" and "f x = f y"
  shows "x = y"
  using assms by (meson distinct_map inj_on_eq_iff)

lemma cleanup_returned_keeps_favorite:
  assumes d: "distinct (map (\<lambda>x. getProp x ''id'') cs)"
    and c: "c \<in> set cs" and fav: "truthy (getProp c ''isFavorite'')"
  shows "c \<in> set (snd (checkAndCleanupStorage cs))"
proof -
  let ?sorted = "sortBy byTimestampDesc cs"
  let ?nonFav = "filter (\<lambda>c. \<not> truthy (getProp c ''isFavorite'')) ?sorted"
  have notdel: "\<not> arrayIncludes (map (\<lambda>c. getProp c ''id'') (drop k ?nonFav)) (getProp c ''id'')" for k
  proof
    assume "arrayIncludes (map (\<lambda>c. getProp c ''id'') (drop k ?nonFav)) (getProp c ''id'')"
    then obtain n where n: "n \<in> set (drop k ?nonFav)"
        and eq: "strictEq (getProp n ''id'') (getProp c ''id'')"
      by (auto simp: arrayIncludes_def list_ex_iff)
    from n have "n \<in> set ?nonFav" by (rule in_set_dropD)
    then have "n \<in> set cs" and nf: "\<not> truthy (getProp n ''isFavorite'')"
      by (simp_all add: set_sortBy)
    moreover from eq have "getProp n ''id'' = getProp c ''id''"
      by (rule strictEq_imp_eq)
    ultimately have "n = c"
      using d c by (intro distinct_map_eq [where f = "\<lambda>x. getProp x ''id''" and xs = cs])
    with nf fav show False by simp
  qed
  have "c \<in> set ?sorted" using c by (simp add: set_sortBy)
  with notdel c show ?thesis
    by (simp add: checkAndCleanupStorage_def Let_def)
qed

text \<open>
  C6: a conversation whose \<^verbatim>\<open>isFavorite\<close> is \<^verbatim>\<open>true\<close> (or any truthy value), stored before a
  save or created by it, is in the list the save writes, whether or not the list is over
  90% of the ceiling; and when the ids in the list are pairwise distinct it is also in the
  list that \<^verbatim>\<open>checkAndCleanupStorage\<close> returns. The case where every conversation is a
  favorite is included.
\<close>

theorem eviction_keeps_favorites:
  assumes "c \<in> set (getAllConversations st @ [newConversation e conversationData])"
    and "truthy (getProp c ''isFavorite'')"
  shows "(writeOk st \<longrightarrow> c \<in> set (stored (snd (saveConversation st e conversationData))))
     \<and> (distinct (map (\<lambda>x. getProp x ''id'')
                      (getAllConversations st @ [newConversation e conversationData]))
          \<longrightarrow> c \<in> set (snd (checkAndCleanupStorage
                      (getAllConversations st @ [newConversation e conversationData]))))"
proof (intro conjI impI)
  assume "writeOk st"
  then have "stored (snd (saveConversation st e conversationData))
      = fst (checkAndCleanupStorage (getAllConversations st @ [newConversation e conversationData]))"
    by (simp add: saveConversation_writeOk)
  then show "c \<in> set (stored (snd (saveConversation st e conversationData)))"
    using assms(1) by (simp only: set_cleanup_fst)
next
  assume "distinct (map (\<lambda>x. getProp x ''id'')
                      (getAllConversations st @ [newConversation e conversationData]))"
  then show "c \<in> set (snd (checkAndCleanupStorage
                      (getAllConversations st @ [newConversation e conversationData])))"
    using assms by (rule cleanup_returned_keeps_favorite)
qed

lemma pressure_favorite_example:
  "90 * MAX_STORAGE_SIZE
      < jsonLength (JArr (map JObj
          [newConversation \<lparr>nowId = 5, rnd = str ''a'', nowTs = 5, href = str ''u''\<rparr>
              [(''content'', JStr (replicate 4718593 97)), (''isFavorite'', JBool True)],
           newConversation \<lparr>nowId = 3, rnd = str ''c'', nowTs = 3, href = str ''u''\<rparr> [],
           newConversation \<lparr>nowId = 7, rnd = str ''b'', nowTs = 7, href = str ''u''\<rparr> []])) * 100"
proof -
  have "length (replicate 4718593 (97::nat)) \<le> jsonLength (JArr (map JObj
          [newConversation \<lparr>nowId = 5, rnd = str ''a'', nowTs = 5, href = str ''u''\<rparr>
              [(''content'', JStr (replicate 4718593 97)), (''isFavorite'', JBool True)],
           newConversation \<lparr>nowId = 3, rnd = str ''c'', nowTs = 3, href = str ''u''\<rparr> [],
           newConversation \<lparr>nowId = 7, rnd = str ''b'', nowTs = 7, href = str ''u''\<rparr> []]))"
    by (rule jsonLength_list_ge [where k = "''content''"
          and c = "newConversation \<lparr>nowId = 5, rnd = str ''a'', nowTs = 5, href = str ''u''\<rparr>
              [(''content'', JStr (replicate 4718593 97)), (''isFavorite'', JBool True)]"])
       (simp_all add: newConversation_def getProp_def orElse_def)
  then show ?thesis by (simp add: MAX_STORAGE_SIZE_def)
qed

theorem eviction_keeps_favorites_witness:
  "newConversation \<lparr>nowId = 5, rnd = str ''a'', nowTs = 5, href = str ''u''\<rparr>
        [(''content'', JStr (replicate 4718593 97)), (''isFavorite'', JBool True)]
     \<in> set (stored (snd (saveConversation
          \<lparr>stored = [newConversation \<lparr>nowId = 5, rnd = str ''a'', nowTs = 5, href = str ''u''\<rparr>
                        [(''content'', JStr (replicate 4718593 97)), (''isFavorite'', JBool True)],
                     newConversation \<lparr>nowId = 3, rnd = str ''c'', nowTs = 3, href = str ''u''\<rparr> []],
            readOk = True, writeOk = True, writes = 0\<rparr>
          \<lparr>nowId = 7, rnd = str ''b'', nowTs = 7, href = str ''u''\<rparr> [])))
   \<and> snd (checkAndCleanupStorage
          [newConversation \<lparr>nowId = 5, rnd = str ''a'', nowTs = 5, href = str ''u''\<rparr>
              [(''content'', JStr (replicate 4718593 97)), (''isFavorite'', JBool True)],
           newConversation \<lparr>nowId = 3, rnd = str ''c'', nowTs = 3, href = str ''u''\<rparr> [],
           newConversation \<lparr>nowId = 7, rnd = str ''b'', nowTs = 7, href = str ''u''\<rparr> []])
     = [newConversation \<lparr>nowId = 7, rnd = str ''b'', nowTs = 7, href = str ''u''\<rparr> [],
        newConversation \<lparr>nowId = 5, rnd = str ''a'', nowTs = 5, href = str ''u''\<rparr>
              [(''content'', JStr (replicate 4718593 97)), (''isFavorite'', JBool True)]]"
proof -
  let ?st = "\<lparr>stored = [newConversation \<lparr>nowId = 5, rnd = str ''a'', nowTs = 5, href = str ''u''\<rparr>
                        [(''content'', JStr (replicate 4718593 97)), (''isFavorite'', JBool True)],
                     newConversation \<lparr>nowId = 3, rnd = str ''c'', nowTs = 3, href = str ''u''\<rparr> []],
            readOk = True, writeOk = True, writes = 0\<rparr>"
  let ?fav = "newConversation \<lparr>nowId = 5, rnd = str ''a'', nowTs = 5, href = str ''u''\<rparr>
        [(''content'', JStr (replicate 4718593 97)), (''isFavorite'', JBool True)]"
  let ?new = "newConversation \<lparr>nowId = 7, rnd = str ''b'', nowTs = 7, href = str ''u''\<rparr> []"
  have m: "?fav \<in> set (getAllConversations ?st @ [?new])"
    by (simp add: getAllConversations_def)
  have t: "truthy (getProp ?fav ''isFavorite'')"
    by (simp add: newConversation_def getProp_def orElse_def)
  have w: "writeOk ?st"
    by simp
  from eviction_keeps_favorites [OF m t] w
  have kept: "?fav \<in> set (stored (snd (saveConversation ?st
            \<lparr>nowId = 7, rnd = str ''b'', nowTs = 7, href = str ''u''\<rparr> [])))"
    by blast
  have evicted: "snd (checkAndCleanupStorage
          [?fav, newConversation \<lparr>nowId = 3, rnd = str ''c'', nowTs = 3, href = str ''u''\<rparr> [], ?new])
     = [?new, ?fav]"
    apply (simp only: checkAndCleanupStorage_pressure [OF pressure_favorite_example])
    apply (simp add: sortBy_def byTimestampDesc_def newConversation_def getProp_def orElse_def Let_def
       arrayIncludes_def generateId_def str_def decimal.simps)
    done
  from kept evicted show ?thesis by (rule conjI)
qed

text \<open>
  Why the generated id must be new: when a stored conversation already carries it,
  \<^verbatim>\<open>getConversation\<close> finds that older record first.
\<close>

lemma getConversation_id_collision:
  "getConversation
     (snd (saveConversation
        \<lparr>stored = [[(''id'', JStr (str ''conv_5_a'')), (''title'', JStr (str ''Old''))]],
         readOk = True, writeOk = True, writes = 0\<rparr>
        \<lparr>nowId = 5, rnd = str ''a'', nowTs = 6, href = str ''u''\<rparr>
        [(''title'', JStr (str ''New''))]))
     (JStr (str ''conv_5_a''))
   = Some [(''id'', JStr (str ''conv_5_a'')), (''title'', JStr (str ''Old''))]"
proof -
  have "jsonLength (JArr (map JObj
          [[(''id'', JStr (str ''conv_5_a'')), (''title'', JStr (str ''Old''))],
           newConversation \<lparr>nowId = 5, rnd = str ''a'', nowTs = 6, href = str ''u''\<rparr>
             [(''title'', JStr (str ''New''))]])) * 100 \<le> 90 * MAX_STORAGE_SIZE"
    by (simp add: newConversation_def getProp_def orElse_def generateId_def str_def decimal.simps
         quoteLen_def unitLen_def isHigh_def isLow_def numLen_def MAX_STORAGE_SIZE_def)
  then show ?thesis
    by (simp add: saveConversation_writeOk getAllConversations_def getConversation_def
          checkAndCleanupStorage_small getProp_def str_def)
qed

subsection \<open>Search\<close>

lemma set_insertBy: "set (insertBy cmp x xs) = insert x (set xs)"
  by (induction xs) auto

lemma sorted_insertBy:
  assumes "\<And>a b. a \<in> insert x (set ys) \<Longrightarrow> b \<in> insert x (set ys) \<Longrightarrow> cmp a b = k b - k a"
    and "sorted_wrt (\<lambda>a b. k b \<le> k a) ys"
  shows "sorted_wrt (\<lambda>a b. k b \<le> (k a :: int)) (insertBy cmp x ys)"
  using assms
proof (induction ys)
  case Nil
  then show ?case by simp
next
  case (Cons y ys)
  have cxy: "cmp x y = k y - k x"
    by (rule Cons.prems(1)) simp_all
  show ?case
  proof (cases "cmp x y \<le> 0")
    case True
    with cxy have "k y \<le> k x" by simp
    moreover have "\<forall>z \<in> set ys. k z \<le> k y"
      using Cons.prems(2) by simp
    ultimately have "\<forall>z \<in> set (y # ys). k z \<le> k x"
      by fastforce
    with True Cons.prems(2) show ?thesis by simp
  next
    case False
    with cxy have "k x \<le> k y" by simp
    have "sorted_wrt (\<lambda>a b. k b \<le> k a) (insertBy cmp x ys)"
    proof (rule Cons.IH)
      fix a b
      assume "a \<in> insert x (set ys)" and "b \<in> insert x (set ys)"
      then show "cmp a b = k b - k a"
        by (intro Cons.prems(1)) auto
    next
      show "sorted_wrt (\<lambda>a b. k b \<le> k a) ys"
        using Cons.prems(2) by simp
    qed
    moreover have "\<forall>z \<in> set (insertBy cmp x ys). k z \<le> k y"
      using Cons.prems(2) \<open>k x \<le> k y\<close> by (simp add: set_insertBy)
    ultimately show ?thesis using False by simp
  qed
qed

lemma sorted_sortBy:
  assumes "\<And>a b. a \<in> set xs \<Longrightarrow> b \<in> set xs \<Longrightarrow> cmp a b = k b - k a"
  shows "sorted_wrt (\<lambda>a b. k b \<le> (k a :: int)) (sortBy cmp xs)"
  using assms
proof (induction xs)
  case Nil
  then show ?case by (simp add: sortBy_def)
next
  case (Cons x xs)
  have IH: "sorted_wrt (\<lambda>a b. k b \<le> k a) (sortBy cmp xs)"
    by (rule Cons.IH) (simp add: Cons.prems)
  have "sorted_wrt (\<lambda>a b. k b \<le> k a) (insertBy cmp x (sortBy cmp xs))"
  proof (rule sorted_insertBy [OF _ IH])
    fix a b
    assume "a \<in> insert x (set (sortBy cmp xs))" and "b \<in> insert x (set (sortBy cmp xs))"
    then show "cmp a b = k b - k a"
      by (intro Cons.prems) (auto simp: set_sortBy)
  qed
  then show ?case by (simp add: sortBy_def)
qed

lemma searchConversations_no_filter:
  "searchConversations st (JStr []) [] = Inr (sortBy byTimestampDesc (getAllConversations st))"
  by (simp add: searchConversations_def queryFilter_def tagFilter_def getProp_def Let_def)

lemma isNumber_iff: "isNumber v \<longleftrightarrow> (\<exists>n. v = JNum n)"
  by (cases v) auto

text \<open>
  C8: when the backend reads and every stored timestamp is a number, the search with the
  empty query and no filters returns a list with the same conversations as the stored list
  (each as often as it is stored), whatever their order there, and the timestamps along the
  result never increase.
\<close>

theorem searchConversations_empty_query_sorted:
  assumes "readOk st"
    and "list_all (\<lambda>c. isNumber (getProp c ''timestamp'')) (stored st)"
  shows "\<exists>r ns. searchConversations st (JStr []) [] = Inr r
           \<and> mset r = mset (stored st)
           \<and> map (\<lambda>c. getProp c ''timestamp'') r = map JNum ns
           \<and> sorted_wrt (\<lambda>earlier later. later \<le> earlier) ns"
proof -
  define k where "k = (\<lambda>c. case getProp c ''timestamp'' of JNum n \<Rightarrow> n | _ \<Rightarrow> 0)"
  let ?r = "sortBy byTimestampDesc (stored st)"
  have num: "getProp c ''timestamp'' = JNum (k c)" if "c \<in> set (stored st)" for c
  proof -
    from assms(2) that have "isNumber (getProp c ''timestamp'')"
      by (simp add: list_all_iff)
    then obtain n where "getProp c ''timestamp'' = JNum n"
      by (auto simp: isNumber_iff)
    then show ?thesis by (simp add: k_def)
  qed
  have cmp: "byTimestampDesc a b = k b - k a"
    if "a \<in> set (stored st)" and "b \<in> set (stored st)" for a b
    using num [OF that(1)] num [OF that(2)] by (simp add: byTimestampDesc_def)
  have res: "searchConversations st (JStr []) [] = Inr ?r"
    using assms(1) by (simp add: searchConversations_no_filter getAllConversations_def)
  have ms: "mset ?r = mset (stored st)"
    by (rule mset_sortBy)
  have "map (\<lambda>c. getProp c ''timestamp'') ?r = map (\<lambda>c. JNum (k c)) ?r"
    by (rule map_cong [OF refl]) (simp add: num set_sortBy)
  then have ts: "map (\<lambda>c. getProp c ''timestamp'') ?r = map JNum (map k ?r)"
    by simp
  have "sorted_wrt (\<lambda>a b. k b \<le> k a) ?r"
    using cmp by (rule sorted_sortBy)
  then have srt: "sorted_wrt (\<lambda>earlier later. later \<le> earlier) (map k ?r)"
    by (simp add: sorted_wrt_map)
  from res ms ts srt show ?thesis by blast
qed

theorem searchConversations_empty_query_sorted_witness:
  "(\<exists>r ns. searchConversations
        \<lparr>stored = [[(''id'', JStr (str ''a'')), (''timestamp'', JNum 10)],
                   [(''id'', JStr (str ''b'')), (''timestamp'', JNum 30)],
                   [(''id'', JStr (str ''c'')), (''timestamp'', JNum 20)]],
         readOk = True, writeOk = True, writes = 0\<rparr> (JStr []) [] = Inr r
      \<and> mset r = mset [[(''id'', JStr (str ''a'')), (''timestamp'', JNum 10)],
                        [(''id'', JStr (str ''b'')), (''timestamp'', JNum 30)],
                        [(''id'', JStr (str ''c'')), (''timestamp'', JNum 20)]]
      \<and> map (\<lambda>c. getProp c ''timestamp'') r = map JNum ns
      \<and> sorted_wrt (\<lambda>earlier later. later \<le> earlier) ns)
   \<and> searchConversations
        \<lparr>stored = [[(''id'', JStr (str ''a'')), (''timestamp'', JNum 10)],
                   [(''id'', JStr (str ''b'')), (''timestamp'', JNum 30)],
                   [(''id'', JStr (str ''c'')), (''timestamp'', JNum 20)]],
         readOk = True, writeOk = True, writes = 0\<rparr> (JStr []) []
     = Inr [[(''id'', JStr (str ''b'')), (''timestamp'', JNum 30)],
            [(''id'', JStr (str ''c'')), (''timestamp'', JNum 20)],
            [(''id'', JStr (str ''a'')), (''timestamp'', JNum 10)]]"
proof -
  let ?st = "\<lparr>stored = [[(''id'', JStr (str ''a'')), (''timestamp'', JNum 10)],
                [(''id'', JStr (str ''b'')), (''timestamp'', JNum 30)],
                [(''id'', JStr (str ''c'')), (''timestamp'', JNum 20)]],
      readOk = True, writeOk = True, writes = 0\<rparr>"
  have r: "readOk ?st" by simp
  have n: "list_all (\<lambda>c. isNumber (getProp c ''timestamp'')) (stored ?st)"
    by (simp add: getProp_def)
  have inst: "\<exists>r ns. searchConversations ?st (JStr []) [] = Inr r
      \<and> mset r = mset [[(''id'', JStr (str ''a'')), (''timestamp'', JNum 10)],
                        [(''id'', JStr (str ''b'')), (''timestamp'', JNum 30)],
                        [(''id'', JStr (str ''c'')), (''timestamp'', JNum 20)]]
      \<and> map (\<lambda>c. getProp c ''timestamp'') r = map JNum ns
      \<and> sorted_wrt (\<lambda>earlier later. later \<le> earlier) ns"
    using searchConversations_empty_query_sorted [OF r n]
    by (simp only: backend.select_convs)
  have val: "searchConversations ?st (JStr []) []
     = Inr [[(''id'', JStr (str ''b'')), (''timestamp'', JNum 30)],
          [(''id'', JStr (str ''c'')), (''timestamp'', JNum 20)],
          [(''id'', JStr (str ''a'')), (''timestamp'', JNum 10)]]"
    by (simp add: searchConversations_no_filter getAllConversations_def sortBy_def
          byTimestampDesc_def getProp_def)
  from inst val show ?thesis by (rule conjI)
qed

subsection \<open>Import\<close>

text \<open>
  C4: for every bundle object that has no \<^verbatim>\<open>version\<close> property, or whose \<^verbatim>\<open>conversations\<close>
  property is absent or not an array, and whatever the answers to the dialogs would be,
  the import fails with Invalid-Format and the backend is as it was: no record was looked
  up, updated or saved.
\<close>

theorem handleImport_invalid_format:
  assumes "map_of bundle ''version'' = None
           \<or> map_of bundle ''conversations'' = None
           \<or> \<not> isArray (getProp bundle ''conversations'')"
  shows "handleImport st envAt (JObj bundle) proceed updateDuplicates
           = (ImportFailed InvalidFormat, st)"
proof -
  have "\<not> truthy (getProp bundle ''version'')
        \<or> \<not> truthy (getProp bundle ''conversations'')
        \<or> \<not> isArray (getProp bundle ''conversations'')"
    using assms by (auto simp: getProp_def)
  then show ?thesis
    by (auto simp: handleImport_def)
qed

lemma importData_invalid_format:
  assumes "\<not> isArray (getProp (objOf data) ''conversations'')"
  shows "importData st envAt data mergeStrategy = (Inl InvalidFormat, st)"
  using assms by (simp add: importData_def)


theorem handleImport_invalid_format_witness:
  "handleImport
      \<lparr>stored = [[(''id'', JStr (str ''a'')), (''conversationId'', JStr (str ''x''))]],
       readOk = True, writeOk = True, writes = 0\<rparr>
      (\<lambda>i. \<lparr>nowId = i, rnd = str ''r'', nowTs = i, href = str ''u''\<rparr>)
      (JObj [(''conversations'', JArr [JObj [(''title'', JStr (str ''T''))]])]) True True
   = (ImportFailed InvalidFormat,
      \<lparr>stored = [[(''id'', JStr (str ''a'')), (''conversationId'', JStr (str ''x''))]],
       readOk = True, writeOk = True, writes = 0\<rparr>)
   \<and> handleImport
      \<lparr>stored = [[(''id'', JStr (str ''a'')), (''conversationId'', JStr (str ''x''))]],
       readOk = True, writeOk = True, writes = 0\<rparr>
      (\<lambda>i. \<lparr>nowId = i, rnd = str ''r'', nowTs = i, href = str ''u''\<rparr>)
      (JObj [(''version'', JStr (str ''1.0'')), (''conversations'', JStr (str ''none''))]) True False
   = (ImportFailed InvalidFormat,
      \<lparr>stored = [[(''id'', JStr (str ''a'')), (''conversationId'', JStr (str ''x''))]],
       readOk = True, writeOk = True, writes = 0\<rparr>)"
proof -
  have a: "map_of [(''conversations'', JArr [JObj [(''title'', JStr (str ''T''))]])] ''version'' = None
           \<or> map_of [(''conversations'', JArr [JObj [(''title'', JStr (str ''T''))]])] ''conversations'' = None
           \<or> \<not> isArray (getProp [(''conversations'', JArr [JObj [(''title'', JStr (str ''T''))]])] ''conversations'')"
    by simp
  have b: "map_of [(''version'', JStr (str ''1.0'')), (''conversations'', JStr (str ''none''))] ''version'' = None
           \<or> map_of [(''version'', JStr (str ''1.0'')), (''conversations'', JStr (str ''none''))] ''conversations'' = None
           \<or> \<not> isArray (getProp [(''version'', JStr (str ''1.0'')), (''conversations'', JStr (str ''none''))] ''conversations'')"
    by (simp add: getProp_def)
  show ?thesis
    by (intro conjI handleImport_invalid_format [OF a] handleImport_invalid_format [OF b])
qed

text \<open>
  The two other ways in: \<^verbatim>\<open>importData\<close> called directly checks \<^verbatim>\<open>conversations\<close> only, and a
  file that holds \<^verbatim>\<open>null\<close> fails in the handler with a TypeError; neither touches the backend.
\<close>

lemma handleImport_null:
  "handleImport st envAt JNull proceed updateDuplicates = (ImportFailed TypeError, st)"
  by (simp add: handleImport_def)

text \<open>
  The import of the spec's example: three records, one of them with the platform id of a
  stored conversation; strategy skip.
\<close>

lemma importData_skip_example:
  "fst (importData
      \<lparr>stored = [[(''id'', JStr (str ''a'')), (''conversationId'', JStr (str ''x''))]],
       readOk = True, writeOk = True, writes = 0\<rparr>
      (\<lambda>i. \<lparr>nowId = i, rnd = str ''r'', nowTs = i, href = str ''u''\<rparr>)
      (JObj [(''version'', JStr (str ''1.0'')),
             (''conversations'', JArr [JObj [(''conversationId'', JStr (str ''x''))],
                                       JObj [(''conversationId'', JStr (str ''y''))],
                                       JObj [(''title'', JStr (str ''T''))]])])
      (str ''skip''))
   = Inr \<lparr>imported = 2, skipped = 1, updated = 0, errors = []\<rparr>"
  by (simp add: importData_def importOne_def findDuplicate_def getAllConversations_def
        getProp_def saveConversation_writeOk str_def set_cleanup_fst Let_def
        checkAndCleanupStorage_def)

section \<open>Properties of the extractor\<close>

subsection \<open>Code blocks in the Markdown\<close>

lemma strIncludes_sublist: "strIncludes hay needle \<longleftrightarrow> sublist needle hay"
  by (induction hay) (simp_all add: sublist_Cons_right)

lemma dropWhile_keeps:
  assumes "F \<noteq> []" and "\<not> P (hd F)"
  shows "\<exists>ps'. dropWhile P (ps @ F @ ss) = ps' @ F @ ss"
proof (induction ps)
  case Nil
  from assms obtain a rest where "F = a # rest" and "\<not> P a"
    by (cases F) auto
  then have "dropWhile P ([] @ F @ ss) = [] @ F @ ss" by simp
  then show ?case by blast
next
  case (Cons x ps)
  then obtain ps' where IH: "dropWhile P (ps @ F @ ss) = ps' @ F @ ss" by blast
  show ?case
  proof (cases "P x")
    case True
    with IH have "dropWhile P ((x # ps) @ F @ ss) = ps' @ F @ ss" by simp
    then show ?thesis by blast
  next
    case False
    then have "dropWhile P ((x # ps) @ F @ ss) = (x # ps) @ F @ ss" by simp
    then show ?thesis by blast
  qed
qed

lemma sublist_trim:
  assumes sub: "sublist F s" and ne: "F \<noteq> []"
    and h: "\<not> isSpace (hd F)" and l: "\<not> isSpace (last F)"
  shows "sublist F (trim s)"
proof -
  from sub obtain ps ss where s: "s = ps @ F @ ss"
    by (auto simp: sublist_def)
  from dropWhile_keeps [of F isSpace ps ss, OF ne h] obtain ps' where
    a: "dropWhile isSpace (ps @ F @ ss) = ps' @ F @ ss" by blast
  have ne': "rev F \<noteq> []" using ne by simp
  have h': "\<not> isSpace (hd (rev F))" using l ne by (simp add: hd_rev)
  from dropWhile_keeps [of "rev F" isSpace "rev ss" "rev ps'", OF ne' h'] obtain ss' where
    b: "dropWhile isSpace (rev ss @ rev F @ rev ps') = ss' @ rev F @ rev ps'" by blast
  have "trim s = ps' @ F @ rev ss'"
    unfolding trim_def s a using b by simp
  then show ?thesis by (simp add: sublist_def) blast
qed

lemma sublist_getChildrenMarkdown:
  assumes "c \<in> set ns" and "sublist F (extractMarkdownFromElement c)"
  shows "sublist F (getChildrenMarkdown ns)"
  using assms
proof (induction ns)
  case Nil
  then show ?case by simp
next
  case (Cons n ns)
  show ?case
  proof (cases "c = n")
    case True
    with Cons.prems(2) show ?thesis
      by (auto simp: sublist_append)
  next
    case False
    with Cons have "sublist F (getChildrenMarkdown ns)" by simp
    then show ?thesis by (auto simp: sublist_append)
  qed
qed

lemma sublist_listItems:
  assumes "c \<in> set ns" and "isListItem c" and "sublist F (extractMarkdownFromElement c)"
    and "F \<noteq> []" and "\<not> isSpace (hd F)" and "\<not> isSpace (last F)"
  shows "sublist F (listItems ordered k ns)"
  using assms(1)
proof (induction ns arbitrary: k)
  case Nil
  then show ?case by simp
next
  case (Cons n ns)
  show ?case
  proof (cases "c = n")
    case True
    from assms(2) True obtain i sh cs where n: "n = Element i sh cs" and li: "tagName i = ''li''"
      by (cases n) auto
    have "sublist F (trim (extractMarkdownFromElement (Element i sh cs)))"
      using assms(3) True n by (intro sublist_trim assms) simp
    then show ?thesis
      unfolding n using li by (auto simp: sublist_append)
  next
    case False
    with Cons have IH: "\<And>k. sublist F (listItems ordered k ns)" by simp
    show ?thesis
    proof (cases n)
      case (Element i sh cs)
      then show ?thesis using IH [of "Suc k"] by (auto simp: sublist_append)
    qed (use IH [of k] in simp_all)
  qed
qed

lemma sublist_mid: "sublist F m \<Longrightarrow> sublist F (a @ m @ b)"
  by (auto simp: sublist_def) (metis append.assoc)

lemma sublist_left: "sublist F m \<Longrightarrow> sublist F (m @ b)"
  using sublist_mid [of F m "[]" b] by simp

lemma reaches_sublist:
  assumes ne: "F \<noteq> []" and h: "\<not> isSpace (hd F)" and l: "\<not> isSpace (last F)"
    and base: "sublist F (extractMarkdownFromElement t)"
  shows "reaches n t \<Longrightarrow> sublist F (extractMarkdownFromElement n)"
proof (induction n)
  case (TextNode s)
  with base show ?case by simp
next
  case OtherNode
  with base show ?case by simp
next
  case (Element i sh cs)
  show ?case
  proof (cases "Element i sh cs = t")
    case True
    with base show ?thesis by simp
  next
    case False
    with Element.prems have noise: "\<not> isNoise i"
      and tags: "tagName i \<noteq> ''pre''" "tagName i \<noteq> ''code''" "tagName i \<noteq> ''a''"
                "tagName i \<noteq> ''br''"
      and down: "if tagName i = ''ul'' \<or> tagName i = ''ol''
                 then list_ex (\<lambda>c. isListItem c \<and> reaches c t) cs
                 else list_ex (\<lambda>c. reaches c t) cs"
      by simp_all
    show ?thesis
    proof (cases "tagName i = ''ul'' \<or> tagName i = ''ol''")
      case True
      with down obtain c where c: "c \<in> set cs" "isListItem c" "reaches c t"
        by (auto simp: list_ex_iff)
      then have "sublist F (extractMarkdownFromElement c)"
        by (intro Element.IH(2))
      with c have "sublist F (listItems (tagName i = ''ol'') 0 cs)"
        by (intro sublist_listItems [OF _ _ _ ne h l])
      then have "sublist F (str [CHR 0x0A] @ listItems (tagName i = ''ol'') 0 cs @ str [CHR 0x0A])"
        by (rule sublist_mid)
      then show ?thesis
        using noise tags True by auto
    next
      case notlist: False
      with down obtain c where c: "c \<in> set cs" "reaches c t"
        by (auto simp: list_ex_iff)
      then have "sublist F (extractMarkdownFromElement c)"
        by (intro Element.IH(2))
      with c have kids: "sublist F (getChildrenMarkdown cs)"
        by (intro sublist_getChildrenMarkdown)
      then have trimmed: "sublist F (trim (getChildrenMarkdown cs))"
        by (intro sublist_trim ne h l)
      from kids trimmed show ?thesis
        using noise tags notlist by (simp add: sublist_mid sublist_left)
    qed
  qed
qed

lemma codeBlock_fenced:
  assumes "querySelector (\<lambda>c. tagName c = ''code'') cs = Some code"
    and "matchLanguage (className (el code)) = Some lang"
  shows "codeBlock i sh cs
     = str [CHR 0x0A] @ fencedBlock lang (textContent (asNode code)) @ str [CHR 0x0A, CHR 0x0A]"
  using assms by (simp add: codeBlock_def fencedBlock_def)

lemma fencedBlock_ends:
  "fencedBlock lang body \<noteq> []" "\<not> isSpace (hd (fencedBlock lang body))"
  "\<not> isSpace (last (fencedBlock lang body))"
  by (simp_all add: fencedBlock_def str_def isSpace_def)

text \<open>
  C9, amended: a \<^verbatim>\<open>pre\<close> element that is not pruned, whose first \<^verbatim>\<open>code\<close> descendant has a
  class attribute in which \<^verbatim>\<open>language-\<close> is followed by the word \<open>lang\<close>, renders as the
  block fenced and tagged \<open>lang\<close> around the exact text content of that \<^verbatim>\<open>code\<close> element,
  between a newline and a blank line; and the Markdown of every subtree from which the
  renderer reaches the \<^verbatim>\<open>pre\<close> contains that fenced block.
\<close>

theorem pre_renders_fenced_block:
  assumes "tagName i = ''pre''" and "\<not> isNoise i"
    and "querySelector (\<lambda>c. tagName c = ''code'') cs = Some code"
    and "matchLanguage (className (el code)) = Some lang"
    and "reaches root (Element i sh cs)"
  shows "extractMarkdownFromElement (Element i sh cs)
           = str [CHR 0x0A] @ fencedBlock lang (textContent (asNode code)) @ str [CHR 0x0A, CHR 0x0A]
     \<and> strIncludes (extractMarkdownFromElement root)
           (fencedBlock lang (textContent (asNode code)))"
proof -
  have pre: "extractMarkdownFromElement (Element i sh cs)
           = str [CHR 0x0A] @ fencedBlock lang (textContent (asNode code)) @ str [CHR 0x0A, CHR 0x0A]"
    using assms(1,2) codeBlock_fenced [OF assms(3,4)] by simp
  then have "sublist (fencedBlock lang (textContent (asNode code)))
               (extractMarkdownFromElement (Element i sh cs))"
    by simp
  from fencedBlock_ends [of lang "textContent (asNode code)"] this assms(5)
  have "sublist (fencedBlock lang (textContent (asNode code)))
               (extractMarkdownFromElement root)"
    by (rule reaches_sublist)
  with pre show ?thesis
    by (simp add: strIncludes_sublist)
qed

theorem pre_renders_fenced_block_witness:
  "strIncludes
     (extractMarkdownFromElement
        (Element \<lparr>tagName = ''div'', attributes = [], kind = Html, innerText = [], rectLeft = None\<rparr> None
           [Element \<lparr>tagName = ''p'', attributes = [], kind = Html, innerText = [], rectLeft = None\<rparr> None
              [TextNode (str ''Run: ''),
               Element \<lparr>tagName = ''pre'', attributes = [], kind = Html, innerText = [], rectLeft = None\<rparr> None
                 [Element \<lparr>tagName = ''code'', attributes = [(''class'', str ''hljs language-python'')],
                           kind = Html, innerText = [], rectLeft = None\<rparr> None
                    [TextNode (str ''a*b''),
                     Element \<lparr>tagName = ''b'', attributes = [], kind = Html, innerText = [], rectLeft = None\<rparr> None
                       [TextNode (str ''c'')]]]]]))
     (fencedBlock (str ''python'') (str ''a*bc''))"
proof -
  let ?b = "Element \<lparr>tagName = ''b'', attributes = [], kind = Html, innerText = [], rectLeft = None\<rparr> None
                       [TextNode (str ''c'')]"
  let ?ci = "\<lparr>tagName = ''code'', attributes = [(''class'', str ''hljs language-python'')],
                           kind = Html, innerText = [], rectLeft = None\<rparr>"
  let ?pi = "\<lparr>tagName = ''pre'', attributes = [], kind = Html, innerText = [], rectLeft = None\<rparr>"
  let ?cs = "[Element ?ci None [TextNode (str ''a*b''), ?b]]"
  let ?code = "Loc ?ci None [TextNode (str ''a*b''), ?b] [] None"
  let ?root = "Element \<lparr>tagName = ''div'', attributes = [], kind = Html, innerText = [], rectLeft = None\<rparr> None
           [Element \<lparr>tagName = ''p'', attributes = [], kind = Html, innerText = [], rectLeft = None\<rparr> None
              [TextNode (str ''Run: ''), Element ?pi None ?cs]]"
  have t: "tagName ?pi = ''pre''" by simp
  have n: "\<not> isNoise ?pi"
    by (simp add: isNoise_def classContains_def className_def getAttribute_def hasAttribute_def)
  have q: "querySelector (\<lambda>c. tagName c = ''code'') ?cs = Some ?code"
    by (simp add: querySelector_def)
  have m: "matchLanguage (className (el ?code)) = Some (str ''python'')"
    by (simp add: className_def getAttribute_def str_def isWord_def)
  have r: "reaches ?root (Element ?pi None ?cs)"
    by (simp add: isNoise_def classContains_def className_def getAttribute_def hasAttribute_def)
  have body: "textContent (asNode ?code) = str ''a*bc''"
    by (simp add: asNode_def str_def)
  from pre_renders_fenced_block [OF t n q m r, unfolded body]
  show ?thesis by (rule conjunct2)
qed

text \<open>
  C9, as stated, fails: a \<^verbatim>\<open>pre\<close> with a \<^verbatim>\<open>language-js\<close> code element inside a \<^verbatim>\<open>button\<close> is
  pruned and the Markdown of the subtree is empty; and for the class \<^verbatim>\<open>language-c++\<close> the
  fence is tagged \<^verbatim>\<open>c\<close>, so no fence tagged \<^verbatim>\<open>c++\<close> is in the Markdown.
\<close>

theorem pre_renders_fenced_block_counterexample:
  "extractMarkdownFromElement
     (Element \<lparr>tagName = ''button'', attributes = [], kind = Html, innerText = [], rectLeft = None\<rparr> None
        [Element \<lparr>tagName = ''pre'', attributes = [], kind = Html, innerText = [], rectLeft = None\<rparr> None
           [Element \<lparr>tagName = ''code'', attributes = [(''class'', str ''language-js'')],
                     kind = Html, innerText = [], rectLeft = None\<rparr> None
              [TextNode (str ''x'')]]]) = []
   \<and> \<not> strIncludes
       (extractMarkdownFromElement
          (Element \<lparr>tagName = ''pre'', attributes = [], kind = Html, innerText = [], rectLeft = None\<rparr> None
             [Element \<lparr>tagName = ''code'', attributes = [(''class'', str ''language-c++'')],
                       kind = Html, innerText = [], rectLeft = None\<rparr> None
                [TextNode (str ''x'')]]))
       (fencedBlock (str ''c++'') (str ''x''))"
proof -
  have a: "extractMarkdownFromElement
     (Element \<lparr>tagName = ''button'', attributes = [], kind = Html, innerText = [], rectLeft = None\<rparr> None
        [Element \<lparr>tagName = ''pre'', attributes = [], kind = Html, innerText = [], rectLeft = None\<rparr> None
           [Element \<lparr>tagName = ''code'', attributes = [(''class'', str ''language-js'')],
                     kind = Html, innerText = [], rectLeft = None\<rparr> None
              [TextNode (str ''x'')]]]) = []"
    by (simp add: isNoise_def)
  have b: "extractMarkdownFromElement
          (Element \<lparr>tagName = ''pre'', attributes = [], kind = Html, innerText = [], rectLeft = None\<rparr> None
             [Element \<lparr>tagName = ''code'', attributes = [(''class'', str ''language-c++'')],
                       kind = Html, innerText = [], rectLeft = None\<rparr> None
                [TextNode (str ''x'')]])
      = str [CHR 0x0A] @ fencedBlock (str ''c'') (str ''x'') @ str [CHR 0x0A, CHR 0x0A]"
    by (simp add: isNoise_def classContains_def className_def getAttribute_def hasAttribute_def
          codeBlock_def querySelector_def fencedBlock_def asNode_def str_def isWord_def)
  have c: "\<not> strIncludes (str [CHR 0x0A] @ fencedBlock (str ''c'') (str ''x'') @ str [CHR 0x0A, CHR 0x0A])
              (fencedBlock (str ''c++'') (str ''x''))"
    by (simp add: fencedBlock_def str_def)
  from a b c show ?thesis by simp
qed

subsection \<open>Role classification\<close>

text \<open>
  C10: the role depends on the element only through its tag, whether it or an ancestor
  is a \<^verbatim>\<open>user-query\<close> or a \<^verbatim>\<open>model-response\<close>, its attributes, its text and its left edge, and
  on the viewport width and the index: two calls that agree on these return the same role,
  whatever the children, the siblings, the shadow roots and the rest of the page are, and
  whatever was classified before.
\<close>

theorem detectRole_deterministic:
  assumes "el l' = el l"
    and "closest ''user-query'' l' = closest ''user-query'' l"
    and "closest ''model-response'' l' = closest ''model-response'' l"
  shows "detectRole innerWidth l' index = detectRole innerWidth l index"
  unfolding detectRole_def by (simp only: assms)

theorem detectRole_deterministic_witness:
  "detectRole 1000
     (Loc \<lparr>tagName = ''div'', attributes = [(''aria-label'', str ''AI reply'')],
           kind = Html, innerText = str ''Hello'', rectLeft = Some 40\<rparr>
        None [TextNode (str ''Hello'')] [OtherNode]
        (Some (Loc \<lparr>tagName = ''main'', attributes = [], kind = Html, innerText = [], rectLeft = None\<rparr>
                 None [] [] None))) 2
   = detectRole 1000
     (Loc \<lparr>tagName = ''div'', attributes = [(''aria-label'', str ''AI reply'')],
           kind = Html, innerText = str ''Hello'', rectLeft = Some 40\<rparr>
        (Some []) [] [] None) 2
   \<and> detectRole 1000
     (Loc \<lparr>tagName = ''div'', attributes = [(''aria-label'', str ''AI reply'')],
           kind = Html, innerText = str ''Hello'', rectLeft = Some 40\<rparr>
        (Some []) [] [] None) 2 = Inr Assistant"
proof -
  let ?i = "\<lparr>tagName = ''div'', attributes = [(''aria-label'', str ''AI reply'')],
           kind = Html, innerText = str ''Hello'', rectLeft = Some 40\<rparr>"
  let ?l' = "Loc ?i None [TextNode (str ''Hello'')] [OtherNode]
        (Some (Loc \<lparr>tagName = ''main'', attributes = [], kind = Html, innerText = [], rectLeft = None\<rparr>
                 None [] [] None))"
  let ?l = "Loc ?i (Some []) [] [] None"
  have a: "el ?l' = el ?l" by simp
  have b: "closest ''user-query'' ?l' = closest ''user-query'' ?l" by simp
  have c: "closest ''model-response'' ?l' = closest ''model-response'' ?l" by simp
  have v: "detectRole 1000 ?l 2 = Inr Assistant"
    by (simp add: detectRole_def getAttribute_def attrOr_def truthyAttr_def toLowerCase_def
          lowerUnit_def userLabel_def userText_def assistantLabel_def assistantText_def str_def)
  from detectRole_deterministic [OF a b c, of 1000 2] v show ?thesis by (rule conjI)
qed

subsection \<open>The fallback scan\<close>

lemma walkSiblings_firstElement: "walkSiblings bf up = walkBack (firstElement bf up)"
  by (induction bf up rule: walkSiblings.induct) (simp_all add: walkBack_def)

text \<open>The model of the walk satisfies the equation of the \<^verbatim>\<open>while\<close> loop.\<close>

lemma walkBack_loop:
  "walkBack (Some l) =
     (if kind (el l) \<noteq> Html then Inl TypeError
      else if length (innerText (el l)) < 5 then walkBack (previousElementSibling l)
      else Inr (Some l))"
  by (simp add: walkBack_def previousElementSibling_def walkSiblings_firstElement)

lemmas page_eval =
  collectMessages_def getDeepElements_def primaryScan_def fallbackScan_def fallbackPair_def
  processBlock_def isBlock_def isAnswer_def isContent_def isNoise_def classContains_def
  className_def getAttribute_def hasAttribute_def walkBack_def asNode_def querySelector_def
  trim_def isSpace_def isAsciiSpace_def str_def Let_def

text \<open>
  C5: a page on which the primary scan yields no message. The question
  \<^verbatim>\<open>What is 2+2?\<close> is an element of 12 characters; after it comes the element that holds the
  one container, of class \<^verbatim>\<open>prose\<close>, with the answer \<^verbatim>\<open>The answer is 4\<close>. The nearest
  preceding sibling with at least 5 characters of text is the question, but the User
  message that the fallback pairs with the answer has the answer's own text: the walk
  starts at the container's parent, whose text is the answer, and stops there.
\<close>

theorem fallback_user_is_parent_text:
  "primaryScan 1000 (getDeepElements
     [Element \<lparr>tagName = ''body'', attributes = [], kind = Html,
               innerText = str ''What is 2+2? The answer is 4'', rectLeft = Some 0\<rparr> None
        [Element \<lparr>tagName = ''div'', attributes = [], kind = Html,
                  innerText = str ''What is 2+2?'', rectLeft = Some 0\<rparr> None
           [TextNode (str ''What is 2+2?'')],
         Element \<lparr>tagName = ''div'', attributes = [], kind = Html,
                  innerText = str ''The answer is 4'', rectLeft = Some 0\<rparr> None
           [Element \<lparr>tagName = ''div'', attributes = [(''class'', str ''prose'')], kind = Html,
                     innerText = str ''The answer is 4'', rectLeft = Some 0\<rparr> None
              [TextNode (str ''The answer is 4'')]]]]) = Inr []
   \<and> collectMessages 1000
     [Element \<lparr>tagName = ''body'', attributes = [], kind = Html,
               innerText = str ''What is 2+2? The answer is 4'', rectLeft = Some 0\<rparr> None
        [Element \<lparr>tagName = ''div'', attributes = [], kind = Html,
                  innerText = str ''What is 2+2?'', rectLeft = Some 0\<rparr> None
           [TextNode (str ''What is 2+2?'')],
         Element \<lparr>tagName = ''div'', attributes = [], kind = Html,
                  innerText = str ''The answer is 4'', rectLeft = Some 0\<rparr> None
           [Element \<lparr>tagName = ''div'', attributes = [(''class'', str ''prose'')], kind = Html,
                     innerText = str ''The answer is 4'', rectLeft = Some 0\<rparr> None
              [TextNode (str ''The answer is 4'')]]]]
     = Inr [(User, str ''The answer is 4''), (Assistant, str ''The answer is 4'')]"
  by (simp add: page_eval)

text \<open>
  The walk reaches the sibling before the parent only when the parent has fewer than 5
  characters of text, that is, when the answer itself is that short.
\<close>

lemma fallback_reaches_sibling:
  "collectMessages 1000
     [Element \<lparr>tagName = ''body'', attributes = [], kind = Html,
               innerText = str ''What is 2+2? 4'', rectLeft = Some 0\<rparr> None
        [Element \<lparr>tagName = ''div'', attributes = [], kind = Html,
                  innerText = str ''What is 2+2?'', rectLeft = Some 0\<rparr> None
           [TextNode (str ''What is 2+2?'')],
         TextNode (str '' ''),
         Element \<lparr>tagName = ''div'', attributes = [], kind = Html, innerText = str ''4'',
                  rectLeft = Some 0\<rparr> None
           [Element \<lparr>tagName = ''div'', attributes = [(''class'', str ''prose'')], kind = Html,
                     innerText = str ''4'', rectLeft = Some 0\<rparr> None
              [TextNode (str ''4'')]]]]
   = Inr [(User, str ''What is 2+2?''), (Assistant, str ''4'')]"
  by (simp add: page_eval)

text \<open>
  When the walk finds no element with 5 characters of text, the guards \<^verbatim>\<open>if (prev)\<close> and
  \<^verbatim>\<open>if (userText)\<close> leave the Assistant message without a User message.
\<close>

lemma fallback_without_user:
  "collectMessages 1000
     [Element \<lparr>tagName = ''body'', attributes = [], kind = Html, innerText = str ''Hi'',
               rectLeft = Some 0\<rparr> None
        [Element \<lparr>tagName = ''div'', attributes = [(''class'', str ''prose'')], kind = Html,
                  innerText = str ''Hi'', rectLeft = Some 0\<rparr> None
           [TextNode (str ''Hi'')]]]
     = Inr [(Assistant, str ''Hi'')]"
  by (simp add: page_eval)

text \<open>
  An SVG element stops both scans: as a candidate, when \<^verbatim>\<open>cls.includes\<close> is called on its
  \<^verbatim>\<open>className\<close>; and in the walk, when its \<^verbatim>\<open>innerText\<close> is read (here the page has a MathML
  element before the short parent of the container).
\<close>

lemma svg_element_throws:
  "collectMessages 1000
     [Element \<lparr>tagName = ''body'', attributes = [], kind = Html, innerText = str ''Hello there'',
               rectLeft = Some 0\<rparr> None
        [Element \<lparr>tagName = ''svg'', attributes = [], kind = Svg, innerText = [],
                  rectLeft = Some 0\<rparr> None [],
         Element \<lparr>tagName = ''div'', attributes = [(''class'', str ''prose'')], kind = Html,
                  innerText = str ''Hello there'', rectLeft = Some 0\<rparr> None
           [TextNode (str ''Hello there'')]]]
     = Inl TypeError
   \<and> collectMessages 1000
     [Element \<lparr>tagName = ''body'', attributes = [], kind = Html, innerText = str ''x Hi'',
               rectLeft = Some 0\<rparr> None
        [Element \<lparr>tagName = ''math'', attributes = [], kind = OtherXml, innerText = [],
                  rectLeft = Some 0\<rparr> None [TextNode (str ''x'')],
         Element \<lparr>tagName = ''div'', attributes = [], kind = Html, innerText = str ''Hi'',
                  rectLeft = Some 0\<rparr> None
           [Element \<lparr>tagName = ''div'', attributes = [(''class'', str ''prose'')], kind = Html,
                     innerText = str ''Hi'', rectLeft = Some 0\<rparr> None
              [TextNode (str ''Hi'')]]]]
     = Inl TypeError"
  by (simp add: page_eval)

end
